theory Spec2Isabelle
  imports Complex_Main
begin

section \<open>Python values\<close>

text \<open>
  The request handlers of \<^verbatim>\<open>kaisurf_secured_app.py\<close> and \<^verbatim>\<open>kaisurf_test.py\<close> work on
  the value \<^verbatim>\<open>request.get_json()\<close> returns: \<^verbatim>\<open>None\<close>, a bool, an int, a float, a str, a
  list or a dict. Python ints are unbounded (\<open>int\<close>); an int that comes out of the JSON
  decoder has at most 4300 digits, since the decoder converts the literal with \<^verbatim>\<open>int()\<close>.
  A float is the rational it denotes, or one of the three special values the JSON decoder
  of Python accepts. Strings are \<open>string\<close>; the model is faithful on ASCII text
  (\<open>is_ascii\<close>). A dict is an association list read with \<open>map_of\<close> (a parsed JSON
  object has each key once).
\<close>

datatype pyfloat = Finite rat | NaN | PosInf | NegInf

datatype json =
    JNull
  | JBool bool
  | JInt int
  | JFloat pyfloat
  | JStr string
  | JArr "json list"
  | JObj "(string \<times> json) list"

definition is_ascii :: "string \<Rightarrow> bool" where
  "is_ascii s = list_all (\<lambda>c. (of_char c :: nat) < 128) s"

text \<open>The exceptions the handlers can meet. \<open>DatabaseError\<close> stands for the exceptions
  of SQLAlchemy raised by a flush or commit the engine refuses.\<close>

datatype py_exn = TypeError | ValueError | OverflowError | AttributeError | KeyError | DatabaseError

text \<open>Truth value testing, as \<^verbatim>\<open>not data\<close> and \<^verbatim>\<open>not event_type\<close> use it.\<close>

fun truthy :: "json \<Rightarrow> bool" where
  "truthy JNull = False"
| "truthy (JBool b) = b"
| "truthy (JInt n) = (n \<noteq> 0)"
| "truthy (JFloat f) = (f \<noteq> Finite 0)"
| "truthy (JStr s) = (s \<noteq> [])"
| "truthy (JArr xs) = (xs \<noteq> [])"
| "truthy (JObj kvs) = (kvs \<noteq> [])"

text \<open>\<^verbatim>\<open>sub in s\<close> on strings: \<open>sub\<close> occurs in \<open>s\<close> as a contiguous run.\<close>

fun startswith :: "string \<Rightarrow> string \<Rightarrow> bool" where
  "startswith [] s = True"
| "startswith (p # ps) [] = False"
| "startswith (p # ps) (c # cs) = (p = c \<and> startswith ps cs)"

fun substring :: "string \<Rightarrow> string \<Rightarrow> bool" where
  "substring sub [] = (sub = [])"
| "substring sub (c # cs) = (startswith sub (c # cs) \<or> substring sub cs)"

text \<open>\<^verbatim>\<open>key in data\<close>: key membership on a dict, element membership on a list, substring
  test on a str, \<^verbatim>\<open>TypeError\<close> on the other values.\<close>

fun py_contains :: "string \<Rightarrow> json \<Rightarrow> py_exn + bool" where
  "py_contains k (JObj kvs) = Inr (map_of kvs k \<noteq> None)"
| "py_contains k (JArr xs) = Inr (List.member xs (JStr k))"
| "py_contains k (JStr s) = Inr (substring k s)"
| "py_contains k JNull = Inl TypeError"
| "py_contains k (JBool b) = Inl TypeError"
| "py_contains k (JInt n) = Inl TypeError"
| "py_contains k (JFloat f) = Inl TypeError"

text \<open>\<^verbatim>\<open>data[key]\<close> with a str key: the value on a dict, \<^verbatim>\<open>KeyError\<close> when the key is
  absent, \<^verbatim>\<open>TypeError\<close> on every other value (a list or str wants integer indices, the
  rest is not subscriptable).\<close>

fun py_getitem :: "json \<Rightarrow> string \<Rightarrow> py_exn + json" where
  "py_getitem (JObj kvs) k = (case map_of kvs k of None \<Rightarrow> Inl KeyError | Some v \<Rightarrow> Inr v)"
| "py_getitem JNull k = Inl TypeError"
| "py_getitem (JBool b) k = Inl TypeError"
| "py_getitem (JInt n) k = Inl TypeError"
| "py_getitem (JFloat f) k = Inl TypeError"
| "py_getitem (JStr s) k = Inl TypeError"
| "py_getitem (JArr xs) k = Inl TypeError"

text \<open>\<^verbatim>\<open>data.get(key)\<close>: only a dict has the method; an absent key gives \<^verbatim>\<open>None\<close>.\<close>

fun py_get :: "json \<Rightarrow> string \<Rightarrow> py_exn + json" where
  "py_get (JObj kvs) k = Inr (case map_of kvs k of None \<Rightarrow> JNull | Some v \<Rightarrow> v)"
| "py_get JNull k = Inl AttributeError"
| "py_get (JBool b) k = Inl AttributeError"
| "py_get (JInt n) k = Inl AttributeError"
| "py_get (JFloat f) k = Inl AttributeError"
| "py_get (JStr s) k = Inl AttributeError"
| "py_get (JArr xs) k = Inl AttributeError"

subsection \<open>\<^verbatim>\<open>int(x)\<close>\<close>

definition is_digit :: "char \<Rightarrow> bool" where
  "is_digit c = (48 \<le> (of_char c :: nat) \<and> (of_char c :: nat) \<le> 57)"

definition digit_val :: "char \<Rightarrow> nat" where
  "digit_val c = of_char c - 48"

text \<open>The characters \<^verbatim>\<open>int()\<close> skips around the literal of an ASCII str: tab, newline,
  vertical tab, form feed, carriage return and the blank. The separators 28 to 31 are
  not among them: \<^verbatim>\<open>int('\x1f5')\<close> raises \<^verbatim>\<open>ValueError\<close>.\<close>

definition is_space :: "char \<Rightarrow> bool" where
  "is_space c = ((of_char c :: nat) \<in> {9, 10, 11, 12, 13, 32})"

definition strip :: "string \<Rightarrow> string" where
  "strip s = rev (dropWhile is_space (rev (dropWhile is_space s)))"

text \<open>The digits of a decimal literal after its first digit: more digits, each
  underscore followed by a digit.\<close>

fun parse_digits :: "nat \<Rightarrow> string \<Rightarrow> nat option" where
  "parse_digits acc [] = Some acc"
| "parse_digits acc [c] = (if is_digit c then Some (10 * acc + digit_val c) else None)"
| "parse_digits acc (c # d # ds) =
     (if is_digit c then parse_digits (10 * acc + digit_val c) (d # ds)
      else if c = CHR ''_'' \<and> is_digit d then parse_digits (10 * acc + digit_val d) ds
      else None)"

definition parse_unsigned :: "string \<Rightarrow> nat option" where
  "parse_unsigned s =
     (case s of [] \<Rightarrow> None
      | c # cs \<Rightarrow> if is_digit c then parse_digits (digit_val c) cs else None)"

text \<open>The limit CPython (3.11, and the security releases of 3.7 to 3.10) puts on the
  number of digits of a str it converts to an int, unless configured otherwise.\<close>

definition max_str_digits :: nat where
  "max_str_digits = 4300"

text \<open>\<^verbatim>\<open>int(s)\<close> on a str, base 10: surrounding whitespace is dropped, one sign is
  allowed, the rest is a decimal literal of at most \<open>max_str_digits\<close> digits (leading
  zeros count, underscores do not); \<open>None\<close> is \<^verbatim>\<open>ValueError\<close>.\<close>

definition int_of_str :: "string \<Rightarrow> int option" where
  "int_of_str s =
     (if max_str_digits < length (filter is_digit (strip s)) then None
      else
        (case strip s of [] \<Rightarrow> None
         | c # cs \<Rightarrow>
             if c = CHR ''-'' then map_option (\<lambda>n. - int n) (parse_unsigned cs)
             else if c = CHR ''+'' then map_option int (parse_unsigned cs)
             else map_option int (parse_unsigned (c # cs))))"

text \<open>\<^verbatim>\<open>int(x)\<close> on a JSON value: an int is itself, a bool is 0 or 1, a float is
  truncated towards zero (\<^verbatim>\<open>ValueError\<close> on NaN, \<^verbatim>\<open>OverflowError\<close> on an infinity), a
  str is parsed, anything else is a \<^verbatim>\<open>TypeError\<close>.\<close>

fun py_int :: "json \<Rightarrow> py_exn + int" where
  "py_int (JInt n) = Inr n"
| "py_int (JBool b) = Inr (if b then 1 else 0)"
| "py_int (JFloat (Finite q)) = Inr (if 0 \<le> q then \<lfloor>q\<rfloor> else \<lceil>q\<rceil>)"
| "py_int (JFloat NaN) = Inl ValueError"
| "py_int (JFloat PosInf) = Inl OverflowError"
| "py_int (JFloat NegInf) = Inl OverflowError"
| "py_int (JStr s) = (case int_of_str s of None \<Rightarrow> Inl ValueError | Some n \<Rightarrow> Inr n)"
| "py_int JNull = Inl TypeError"
| "py_int (JArr xs) = Inl TypeError"
| "py_int (JObj kvs) = Inl TypeError"

subsection \<open>Formatting and string methods\<close>

text \<open>\<^verbatim>\<open>str(n)\<close> of an int, as the f-string of the success message needs it.\<close>

function show_nat :: "nat \<Rightarrow> string" where
  "show_nat n =
     (if n < 10 then [char_of (48 + n)]
      else show_nat (n div 10) @ [char_of (48 + n mod 10)])"
  by pat_completeness auto
termination
  by (relation "measure id") auto

definition show_int :: "int \<Rightarrow> string" where
  "show_int i = (if i < 0 then CHR ''-'' # show_nat (nat (- i)) else show_nat (nat i))"

text \<open>\<^verbatim>\<open>str.upper\<close> on ASCII letters (other characters are left as they are) and
  \<^verbatim>\<open>str.replace\<close> of one character by another.\<close>

definition upper_char :: "char \<Rightarrow> char" where
  "upper_char c =
     (if 97 \<le> (of_char c :: nat) \<and> (of_char c :: nat) \<le> 122
      then char_of ((of_char c :: nat) - 32) else c)"

definition upper :: "string \<Rightarrow> string" where
  "upper s = map upper_char s"

definition replace_char :: "char \<Rightarrow> char \<Rightarrow> string \<Rightarrow> string" where
  "replace_char old new s = map (\<lambda>c. if c = old then new else c) s"


declare show_nat.simps [simp del]

section \<open>The secured application (\<^verbatim>\<open>kaisurf_secured_app.py\<close>, \<^verbatim>\<open>models.py\<close>, \<^verbatim>\<open>config.py\<close>)\<close>

subsection \<open>Configuration, requests, responses\<close>

text \<open>\<^verbatim>\<open>app.config.get(k)\<close> is \<^verbatim>\<open>None\<close> for a key that is not set.\<close>

record config =
  SUPABASE_JWT_SECRET :: "string option"
  TRUSTED_SERVICE_API_KEY :: "string option"

text \<open>A request: the two headers the decorators read (\<^verbatim>\<open>request.headers.get\<close> is
  \<^verbatim>\<open>None\<close> for an absent header) and the value of \<^verbatim>\<open>request.get_json()\<close>. A body
  that is no JSON document is answered by Flask before the handler body runs and is not a
  request of this model.\<close>

record request =
  Authorization :: "string option"
  X_Api_Key :: "string option"
  json_body :: json

text \<open>A response is \<^verbatim>\<open>jsonify(v), status\<close>, or the 500 page Flask produces for an
  exception no handler catches.\<close>

datatype response = Json nat json | Unhandled py_exn

fun status_code :: "response \<Rightarrow> nat" where
  "status_code (Json n d) = n"
| "status_code (Unhandled e) = 500"

subsection \<open>Tables (\<^verbatim>\<open>models.py\<close>)\<close>

text \<open>\<^verbatim>\<open>User\<close> has the single column \<^verbatim>\<open>auth_uid\<close>, its primary key: the table is the
  list of the identities. The other tables are lists of rows in insertion order, with an
  auto-increment \<^verbatim>\<open>id\<close>. \<^verbatim>\<open>KonesBalance.user_auth_uid\<close> is a foreign key and is not
  declared unique. Timestamps are clock readings (\<open>int\<close>).\<close>

record KonesBalance =
  kb_id :: nat
  kb_user_auth_uid :: string
  kb_balance :: int
  kb_last_updated :: int

record KonesLedger =
  kl_id :: nat
  kl_user_auth_uid :: string
  kl_amount :: int
  kl_description :: json
  kl_timestamp :: int

record Chronolog =
  ch_id :: nat
  ch_user_auth_uid :: string
  ch_event_type :: string
  ch_payload :: json
  ch_timestamp :: int

record store =
  users :: "string list"
  balances :: "KonesBalance list"
  ledger :: "KonesLedger list"
  chronolog :: "Chronolog list"

definition next_id :: "nat list \<Rightarrow> nat" where
  "next_id ids = Suc (foldr max ids 0)"

text \<open>The row an attribute assignment on the result of \<^verbatim>\<open>.first()\<close> changes: the first
  row of the table that matches.\<close>

fun update_first :: "('a \<Rightarrow> bool) \<Rightarrow> ('a \<Rightarrow> 'a) \<Rightarrow> 'a list \<Rightarrow> 'a list" where
  "update_first P f [] = []"
| "update_first P f (x # xs) = (if P x then f x # xs else x # update_first P f xs)"

subsection \<open>The world outside the source\<close>

text \<open>
  A bearer token, as \<^verbatim>\<open>jwt.decode\<close> of PyJWT sees it: the algorithm of its header, the
  key under which its signature verifies (\<open>None\<close> for a signature no key verifies), and
  its claims. The tokens of this model carry the claims \<^verbatim>\<open>sub\<close> and \<^verbatim>\<open>exp\<close> and no
  other, as the tokens \<^verbatim>\<open>create_test_jwt\<close> of \<^verbatim>\<open>conftest.py\<close> issues; a token with further
  registered claims (\<^verbatim>\<open>nbf\<close>, \<^verbatim>\<open>iat\<close>, \<^verbatim>\<open>aud\<close>, \<^verbatim>\<open>iss\<close>), which PyJWT validates too, is
  not a token of this model. \<^verbatim>\<open>exp\<close> is a clock reading in the unit of \<open>now\<close>.
\<close>

record jwt =
  jwt_alg :: string
  jwt_signed_with :: "string option"
  jwt_exp :: "int option"
  jwt_sub :: "string option"

text \<open>
  What a handler reads from outside: the clock (one reading per request), the compact
  serialisations that are tokens (\<open>jws tok = None\<close>: \<open>tok\<close> is not three well-formed
  segments), and the limits of the database engine behind \<^verbatim>\<open>SQLALCHEMY_DATABASE_URI\<close>:
  which ints an \<^verbatim>\<open>Integer\<close> column takes and which values a \<^verbatim>\<open>String(n)\<close> column takes.
\<close>

record runtime =
  now :: int
  jws :: "string \<Rightarrow> jwt option"
  fits_integer :: "int \<Rightarrow> bool"
  fits_string :: "nat \<Rightarrow> json \<Rightarrow> bool"

datatype jwt_exn =
  DecodeError | InvalidAlgorithmError | InvalidSignatureError | ExpiredSignatureError | InvalidKeyError

text \<open>
  \<^verbatim>\<open>jwt.decode(jwt_token, jwt_secret, algorithms=["HS256"])\<close>. PyJWT loads the segments,
  checks the algorithm of the header against the allowed ones, verifies the signature,
  and validates \<^verbatim>\<open>exp\<close> only then: a token is expired when \<^verbatim>\<open>exp <= now\<close>. All these
  exceptions but \<open>InvalidKeyError\<close> are subclasses of \<^verbatim>\<open>InvalidTokenError\<close>;
  \<open>InvalidKeyError\<close> (a secret that is a PEM or SSH key) is not raised in this model.
\<close>

definition jwt_decode :: "runtime \<Rightarrow> string \<Rightarrow> string \<Rightarrow> jwt_exn + jwt" where
  "jwt_decode rt jwt_token jwt_secret =
     (case jws rt jwt_token of
        None \<Rightarrow> Inl DecodeError
      | Some t \<Rightarrow>
          if jwt_alg t \<noteq> ''HS256'' then Inl InvalidAlgorithmError
          else if jwt_signed_with t \<noteq> Some jwt_secret then Inl InvalidSignatureError
          else (case jwt_exp t of
                  None \<Rightarrow> Inr t
                | Some e \<Rightarrow> if e \<le> now rt then Inl ExpiredSignatureError else Inr t))"

subsection \<open>Decorators\<close>

text \<open>\<^verbatim>\<open>auth_header.split(' ')[1]\<close> for a header that starts with \<^verbatim>\<open>'Bearer '\<close>: the text
  between that blank and the next one.\<close>

definition bearer_token :: "string \<Rightarrow> string" where
  "bearer_token auth_header = takeWhile (\<lambda>c. c \<noteq> CHR '' '') (drop 7 auth_header)"

text \<open>A decorated handler maps the store to a response and the store after the
  request; the decorators answer themselves or call the handler \<open>f\<close>.\<close>

definition get_user_from_auth_header ::
  "config \<Rightarrow> runtime \<Rightarrow> request \<Rightarrow> (string \<Rightarrow> store \<Rightarrow> response \<times> store) \<Rightarrow> store \<Rightarrow> response \<times> store" where
  "get_user_from_auth_header cfg rt req f s =
     (case Authorization req of
        None \<Rightarrow> (Json 401 (JObj [(''message'', JStr ''Missing or invalid Authorization header.'')]), s)
      | Some auth_header \<Rightarrow>
          if \<not> startswith ''Bearer '' auth_header
          then (Json 401 (JObj [(''message'', JStr ''Missing or invalid Authorization header.'')]), s)
          else
            let jwt_token = bearer_token auth_header in
            (case SUPABASE_JWT_SECRET cfg of
               None \<Rightarrow> (Json 500 (JObj [(''message'', JStr ''Server misconfiguration.'')]), s)
             | Some jwt_secret \<Rightarrow>
                 if jwt_secret = []
                 then (Json 500 (JObj [(''message'', JStr ''Server misconfiguration.'')]), s)
                 else
                   (case jwt_decode rt jwt_token jwt_secret of
                      Inl e \<Rightarrow>
                        if e = ExpiredSignatureError
                        then (Json 401 (JObj [(''message'', JStr ''JWT has expired.'')]), s)
                        else if e = InvalidKeyError
                        then (Json 401 (JObj [(''message'', JStr ''Invalid JWT format.'')]), s)
                        else (Json 401 (JObj [(''message'', JStr ''Invalid format.'')]), s)
                    | Inr payload \<Rightarrow>
                        (case jwt_sub payload of
                           None \<Rightarrow> (Json 401 (JObj [(''message'', JStr ''Invalid JWT payload.'')]), s)
                         | Some auth_uid \<Rightarrow>
                             if auth_uid = []
                             then (Json 401 (JObj [(''message'', JStr ''Invalid JWT payload.'')]), s)
                             else if \<not> List.member (users s) auth_uid
                             then (Json 404 (JObj [(''message'', JStr ''User not found in database.'')]), s)
                             else f auth_uid s))))"

definition trusted_service_required ::
  "config \<Rightarrow> request \<Rightarrow> (store \<Rightarrow> response \<times> store) \<Rightarrow> store \<Rightarrow> response \<times> store" where
  "trusted_service_required cfg req f s =
     (if X_Api_Key req \<noteq> TRUSTED_SERVICE_API_KEY cfg
      then (Json 403 (JObj [(''message'', JStr ''Invalid API Key for trusted service.'')]), s)
      else f s)"

subsection \<open>Handlers\<close>

definition list_posts :: "string \<Rightarrow> store \<Rightarrow> response \<times> store" where
  "list_posts current_user s =
     (Json 200
        (JObj
          [(''user'', JStr current_user),
           (''message'', JStr ''Access granted. Listing personalized content.''),
           (''posts'', JArr [JObj [(''title'', JStr ''Wave Riding Tips'')],
                             JObj [(''title'', JStr ''Newest Surfboards'')]])]), s)"

text \<open>
  \<^verbatim>\<open>earn_kones\<close>. The session is committed once, at the end: the flush is refused
  (an exception, the session is rolled back, Flask answers 500) when \<^verbatim>\<open>description\<close> is
  \<^verbatim>\<open>None\<close> (the column is \<^verbatim>\<open>nullable=False\<close>) or the engine does not take one of the
  values.
\<close>

definition earn_kones :: "runtime \<Rightarrow> request \<Rightarrow> string \<Rightarrow> store \<Rightarrow> response \<times> store" where
  "earn_kones rt req current_user s =
     (let data = json_body req;
          missing = Json 400 (JObj [(''message'', JStr ''Missing required fields: amount and description.'')])
      in
      if \<not> truthy data then (missing, s)
      else
       (case py_contains ''amount'' data of
          Inl e \<Rightarrow> (Unhandled e, s)
        | Inr has_amount \<Rightarrow>
            if \<not> has_amount then (missing, s)
            else
             (case py_contains ''description'' data of
                Inl e \<Rightarrow> (Unhandled e, s)
              | Inr has_description \<Rightarrow>
                  if \<not> has_description then (missing, s)
                  else
                   (case py_getitem data ''amount'' of
                      Inl e \<Rightarrow> (Unhandled e, s)
                    | Inr raw \<Rightarrow>
                       (case py_int raw of
                          Inl e \<Rightarrow>
                            if e = ValueError
                            then (Json 400 (JObj [(''message'', JStr ''Amount must be an integer.'')]), s)
                            else (Unhandled e, s)
                        | Inr amount \<Rightarrow>
                           (case py_getitem data ''description'' of
                              Inl e \<Rightarrow> (Unhandled e, s)
                            | Inr description \<Rightarrow>
                                if amount \<le> 0
                                then (Json 400 (JObj [(''message'', JStr ''Amount must be positive.'')]), s)
                                else
                                 (let balance_record =
                                        find (\<lambda>r. kb_user_auth_uid r = current_user) (balances s);
                                      new_balance =
                                        (case balance_record of None \<Rightarrow> 0 | Some r \<Rightarrow> kb_balance r)
                                          + amount;
                                      balances' =
                                        (case balance_record of
                                           None \<Rightarrow>
                                             balances s @
                                               [\<lparr>kb_id = next_id (map kb_id (balances s)),
                                                 kb_user_auth_uid = current_user,
                                                 kb_balance = new_balance, kb_last_updated = now rt\<rparr>]
                                         | Some r \<Rightarrow>
                                             update_first (\<lambda>r. kb_user_auth_uid r = current_user)
                                               (\<lambda>r. r\<lparr>kb_balance := kb_balance r + amount,
                                                       kb_last_updated := now rt\<rparr>)
                                               (balances s));
                                      ledger_entry =
                                        \<lparr>kl_id = next_id (map kl_id (ledger s)),
                                         kl_user_auth_uid = current_user, kl_amount = amount,
                                         kl_description = description, kl_timestamp = now rt\<rparr>
                                  in
                                  if description = JNull \<or> \<not> fits_string rt 256 description
                                     \<or> \<not> fits_integer rt amount \<or> \<not> fits_integer rt new_balance
                                  then (Unhandled DatabaseError, s)
                                  else
                                    (Json 200
                                       (JObj
                                         [(''message'',
                                             JStr (''Successfully added '' @ show_int amount @ '' Kones.'')),
                                          (''new_balance'', JInt new_balance)]),
                                     s\<lparr>balances := balances',
                                       ledger := ledger s @ [ledger_entry]\<rparr>))))))))"

text \<open>\<^verbatim>\<open>webhook_sync\<close>. \<^verbatim>\<open>event_type.upper()\<close> exists on a str only.\<close>

definition webhook_sync :: "runtime \<Rightarrow> request \<Rightarrow> string \<Rightarrow> store \<Rightarrow> response \<times> store" where
  "webhook_sync rt req current_user s =
     (let data = json_body req in
      (case py_get data ''event_type'' of
         Inl e \<Rightarrow> (Unhandled e, s)
       | Inr event_type \<Rightarrow>
          (case py_get data ''payload'' of
             Inl e \<Rightarrow> (Unhandled e, s)
           | Inr payload \<Rightarrow>
               if \<not> truthy event_type \<or> \<not> truthy payload
               then (Json 400
                       (JObj [(''message'', JStr ''Request must include 'event_type' and 'payload'.'')]), s)
               else
                (case event_type of
                   JStr et \<Rightarrow>
                    (let log_event = ''WEBHOOK_'' @ replace_char CHR '' '' CHR ''_'' (upper et);
                         chronolog_entry =
                           \<lparr>ch_id = next_id (map ch_id (chronolog s)), ch_user_auth_uid = current_user,
                            ch_event_type = log_event, ch_payload = payload, ch_timestamp = now rt\<rparr>
                     in
                     if \<not> fits_string rt 128 (JStr log_event) then (Unhandled DatabaseError, s)
                     else
                       (Json 200 (JObj [(''message'', JStr ''Webhook event processed.''),
                                        (''event_type'', JStr log_event)]),
                        s\<lparr>chronolog := chronolog s @ [chronolog_entry]\<rparr>))
                 | _ \<Rightarrow> (Unhandled AttributeError, s)))))"

subsection \<open>Routes\<close>

definition posts_route :: "config \<Rightarrow> runtime \<Rightarrow> request \<Rightarrow> store \<Rightarrow> response \<times> store" where
  "posts_route cfg rt req = get_user_from_auth_header cfg rt req list_posts"

definition earn_kones_route :: "config \<Rightarrow> runtime \<Rightarrow> request \<Rightarrow> store \<Rightarrow> response \<times> store" where
  "earn_kones_route cfg rt req =
     trusted_service_required cfg req (get_user_from_auth_header cfg rt req (earn_kones rt req))"

definition webhook_sync_route :: "config \<Rightarrow> runtime \<Rightarrow> request \<Rightarrow> store \<Rightarrow> response \<times> store" where
  "webhook_sync_route cfg rt req =
     trusted_service_required cfg req (get_user_from_auth_header cfg rt req (webhook_sync rt req))"


section \<open>The wallet read paths (\<^verbatim>\<open>kaisurf_test.py\<close>)\<close>

text \<open>
  The balance read and the ledger history are routes of the second application of the
  repository, which has its own tables: users have an integer \<^verbatim>\<open>id\<close>, a session is a
  \<^verbatim>\<open>LoginRecord\<close>, and \<^verbatim>\<open>KonesBalance.user_id\<close> is the primary key of its table.
\<close>

subsection \<open>Queries\<close>

text \<open>\<^verbatim>\<open>order_by(col.desc())\<close>: rows by decreasing \<open>col\<close>. SQL leaves the order of rows
  with equal keys open; here they keep their table order.\<close>

definition order_by_desc :: "('r \<Rightarrow> int) \<Rightarrow> 'r list \<Rightarrow> 'r list" where
  "order_by_desc col rows = sort_key (\<lambda>r. - col r) rows"

definition first_row :: "'r list \<Rightarrow> 'r option" where
  "first_row rows = (case rows of [] \<Rightarrow> None | r # _ \<Rightarrow> Some r)"

text \<open>The query of \<^verbatim>\<open>get_kones_ledger\<close>:
  \<^verbatim>\<open>filter_by(user_id=...).order_by(KonesLedger.timestamp.desc()).all()\<close>, for a ledger
  table with the owner column \<open>owner\<close> and the timestamp column \<open>stamp\<close>.\<close>

definition ledger_query :: "('r \<Rightarrow> 'u) \<Rightarrow> ('r \<Rightarrow> int) \<Rightarrow> 'u \<Rightarrow> 'r list \<Rightarrow> 'r list" where
  "ledger_query owner stamp uid rows = order_by_desc stamp (filter (\<lambda>r. owner r = uid) rows)"

subsection \<open>Tables\<close>

record User_t =
  ut_id :: nat
  ut_roaming_id :: string
  ut_registration_date :: int

record LoginRecord =
  lr_id :: nat
  lr_user_id :: nat
  lr_login_username :: string
  lr_login_timestamp :: int

record KonesBalance_t =
  kbt_user_id :: nat
  kbt_balance :: int

record KonesLedger_t =
  klt_id :: nat
  klt_user_id :: nat
  klt_transaction_type :: string
  klt_amount :: int
  klt_description :: "string option"
  klt_timestamp :: int

record store_t =
  users_t :: "User_t list"
  login_records :: "LoginRecord list"
  balances_t :: "KonesBalance_t list"
  ledger_t :: "KonesLedger_t list"

record request_t =
  X_Auth_Username :: "string option"

subsection \<open>Decorator and handlers\<close>

definition require_auth ::
  "request_t \<Rightarrow> (User_t \<Rightarrow> store_t \<Rightarrow> response \<times> store_t) \<Rightarrow> store_t \<Rightarrow> response \<times> store_t" where
  "require_auth req f s =
     (case X_Auth_Username req of
        None \<Rightarrow> (Json 401 (JObj [(''error'', JStr ''Authentication username required.'')]), s)
      | Some auth_username \<Rightarrow>
          if auth_username = []
          then (Json 401 (JObj [(''error'', JStr ''Authentication username required.'')]), s)
          else
            (case first_row (order_by_desc lr_login_timestamp
                    (filter (\<lambda>r. lr_login_username r = auth_username) (login_records s))) of
               None \<Rightarrow> (Json 403 (JObj [(''error'', JStr ''Invalid or expired session username.'')]), s)
             | Some record \<Rightarrow>
                 (case find (\<lambda>u. ut_id u = lr_user_id record) (users_t s) of
                    None \<Rightarrow> (Json 404 (JObj [(''error'', JStr ''Authenticated user not found.'')]), s)
                  | Some user \<Rightarrow> f user s)))"

text \<open>The user \<^verbatim>\<open>require_auth\<close> resolves a request to: the user of the newest login
  record with the username of the header, if there is such a record and such a user.\<close>

definition session_user :: "request_t \<Rightarrow> store_t \<Rightarrow> User_t option" where
  "session_user req s =
     (case X_Auth_Username req of
        None \<Rightarrow> None
      | Some auth_username \<Rightarrow>
          if auth_username = [] then None
          else
            (case first_row (order_by_desc lr_login_timestamp
                    (filter (\<lambda>r. lr_login_username r = auth_username) (login_records s))) of
               None \<Rightarrow> None
             | Some record \<Rightarrow> find (\<lambda>u. ut_id u = lr_user_id record) (users_t s)))"

text \<open>\<^verbatim>\<open>get_kones_balance\<close>: a user without a balance row gets one, with balance 0, and
  the session is committed.\<close>

definition get_kones_balance :: "User_t \<Rightarrow> store_t \<Rightarrow> response \<times> store_t" where
  "get_kones_balance user s =
     (case find (\<lambda>b. kbt_user_id b = ut_id user) (balances_t s) of
        None \<Rightarrow>
          (Json 200 (JObj [(''user_id'', JInt (int (ut_id user))), (''kone_balance'', JInt 0)]),
           s\<lparr>balances_t := balances_t s @ [\<lparr>kbt_user_id = ut_id user, kbt_balance = 0\<rparr>]\<rparr>)
      | Some balance \<Rightarrow>
          (Json 200 (JObj [(''user_id'', JInt (int (ut_id user))),
                           (''kone_balance'', JInt (kbt_balance balance))]), s))"

text \<open>\<^verbatim>\<open>get_kones_ledger\<close>. The ISO text of a timestamp is rendered as its clock
  reading.\<close>

definition get_kones_ledger :: "User_t \<Rightarrow> store_t \<Rightarrow> response \<times> store_t" where
  "get_kones_ledger user s =
     (let ledger_entries = ledger_query klt_user_id klt_timestamp (ut_id user) (ledger_t s);
          history =
            map (\<lambda>entry.
                  JObj [(''timestamp'', JInt (klt_timestamp entry)),
                        (''type'', JStr (klt_transaction_type entry)),
                        (''amount'', JInt (klt_amount entry)),
                        (''description'',
                           (case klt_description entry of None \<Rightarrow> JNull | Some d \<Rightarrow> JStr d))])
              ledger_entries
      in (Json 200 (JArr history), s))"

definition kones_balance_route :: "request_t \<Rightarrow> store_t \<Rightarrow> response \<times> store_t" where
  "kones_balance_route req = require_auth req get_kones_balance"

definition kones_ledger_route :: "request_t \<Rightarrow> store_t \<Rightarrow> response \<times> store_t" where
  "kones_ledger_route req = require_auth req get_kones_ledger"

section \<open>Balances and ledgers\<close>

text \<open>The balance of an identity in the secured application is the row \<^verbatim>\<open>earn_kones\<close>
  looks up, and 0 when there is none; its ledger sum adds the amounts of its entries.\<close>

definition balance_of :: "store \<Rightarrow> string \<Rightarrow> int" where
  "balance_of s uid =
     (case find (\<lambda>r. kb_user_auth_uid r = uid) (balances s) of
        None \<Rightarrow> 0 | Some r \<Rightarrow> kb_balance r)"

definition ledger_sum :: "store \<Rightarrow> string \<Rightarrow> int" where
  "ledger_sum s uid = sum_list (map kl_amount (filter (\<lambda>e. kl_user_auth_uid e = uid) (ledger s)))"

definition balance_rows :: "store \<Rightarrow> string \<Rightarrow> KonesBalance list" where
  "balance_rows s uid = filter (\<lambda>r. kb_user_auth_uid r = uid) (balances s)"

text \<open>The committed effect of a credit in the words of the specification: look the
  balance row of the identity up and create it with zero when it is absent, add the
  amount and stamp the time, append one ledger entry with the same amount, description
  and time.\<close>

definition credited :: "runtime \<Rightarrow> string \<Rightarrow> int \<Rightarrow> json \<Rightarrow> store \<Rightarrow> store" where
  "credited rt uid a d s =
     s\<lparr>balances :=
         (case find (\<lambda>r. kb_user_auth_uid r = uid) (balances s) of
            None \<Rightarrow>
              balances s @
                [\<lparr>kb_id = next_id (map kb_id (balances s)), kb_user_auth_uid = uid,
                  kb_balance = 0 + a, kb_last_updated = now rt\<rparr>]
          | Some r \<Rightarrow>
              update_first (\<lambda>r. kb_user_auth_uid r = uid)
                (\<lambda>r. r\<lparr>kb_balance := kb_balance r + a, kb_last_updated := now rt\<rparr>)
                (balances s)),
       ledger :=
         ledger s @
           [\<lparr>kl_id = next_id (map kl_id (ledger s)), kl_user_auth_uid = uid,
             kl_amount = a, kl_description = d, kl_timestamp = now rt\<rparr>]\<rparr>"

text \<open>The requests \<^verbatim>\<open>earn_kones\<close> commits: a JSON object whose \<^verbatim>\<open>amount\<close> converts to the
  positive int \<open>a\<close>, whose \<^verbatim>\<open>description\<close> is \<open>d\<close>, with values the engine takes.\<close>

definition credit_accepted :: "runtime \<Rightarrow> store \<Rightarrow> string \<Rightarrow> json \<Rightarrow> int \<Rightarrow> json \<Rightarrow> bool" where
  "credit_accepted rt s uid data a d =
     (case data of
        JObj kvs \<Rightarrow>
          (case map_of kvs ''amount'' of
             None \<Rightarrow> False
           | Some raw \<Rightarrow>
               py_int raw = Inr a \<and> 0 < a \<and> map_of kvs ''description'' = Some d \<and> d \<noteq> JNull
               \<and> fits_string rt 256 d \<and> fits_integer rt a \<and> fits_integer rt (balance_of s uid + a))
      | _ \<Rightarrow> False)"

definition balance_of_t :: "store_t \<Rightarrow> nat \<Rightarrow> int" where
  "balance_of_t s uid =
     (case find (\<lambda>b. kbt_user_id b = uid) (balances_t s) of
        None \<Rightarrow> 0 | Some b \<Rightarrow> kbt_balance b)"

definition ledger_sum_t :: "store_t \<Rightarrow> nat \<Rightarrow> int" where
  "ledger_sum_t s uid = sum_list (map klt_amount (filter (\<lambda>e. klt_user_id e = uid) (ledger_t s)))"


section \<open>Executions of the secured application\<close>

text \<open>The stores the secured application can be in: it starts with no balance and no
  ledger rows, identities are added by the external signup, and every request to one of
  its routes, answered or refused, leads from a store to the next.\<close>

inductive reachable :: "store \<Rightarrow> bool" where
  fresh: "balances s = [] \<Longrightarrow> ledger s = [] \<Longrightarrow> reachable s"
| signup: "reachable s \<Longrightarrow> reachable (s\<lparr>users := uid # users s\<rparr>)"
| posts: "reachable s \<Longrightarrow> reachable (snd (posts_route cfg rt req s))"
| earn: "reachable s \<Longrightarrow> reachable (snd (earn_kones_route cfg rt req s))"
| webhook: "reachable s \<Longrightarrow> reachable (snd (webhook_sync_route cfg rt req s))"

section \<open>Causes of an authentication failure\<close>

text \<open>The failure modes of the token check by their cause, in the order the checks are
  made: the header, the configured secret, the structure of the token and its algorithm,
  the signature, the expiry, the subject claim, the stored identity.\<close>

datatype auth_failure =
    Header_invalid
  | Secret_absent
  | Token_malformed
  | Signature_invalid
  | Token_expired
  | Subject_missing
  | Subject_unknown

definition auth_failure_of :: "config \<Rightarrow> runtime \<Rightarrow> request \<Rightarrow> store \<Rightarrow> auth_failure option" where
  "auth_failure_of cfg rt req s =
     (case Authorization req of
        None \<Rightarrow> Some Header_invalid
      | Some h \<Rightarrow>
          if \<not> startswith ''Bearer '' h then Some Header_invalid
          else if SUPABASE_JWT_SECRET cfg = None \<or> SUPABASE_JWT_SECRET cfg = Some [] then Some Secret_absent
          else
            (case jws rt (bearer_token h) of
               None \<Rightarrow> Some Token_malformed
             | Some t \<Rightarrow>
                 if jwt_alg t \<noteq> ''HS256'' then Some Token_malformed
                 else if jwt_signed_with t \<noteq> SUPABASE_JWT_SECRET cfg then Some Signature_invalid
                 else if (case jwt_exp t of None \<Rightarrow> False | Some e \<Rightarrow> e \<le> now rt) then Some Token_expired
                 else
                   (case jwt_sub t of
                      None \<Rightarrow> Some Subject_missing
                    | Some uid \<Rightarrow>
                        if uid = [] then Some Subject_missing
                        else if \<not> List.member (users s) uid then Some Subject_unknown
                        else None)))"

text \<open>A request passes both decorators as the identity \<open>uid\<close>: the key matches, the
  token check finds no cause of failure, and \<open>uid\<close> is the subject of the token.\<close>

definition authenticates :: "config \<Rightarrow> runtime \<Rightarrow> request \<Rightarrow> store \<Rightarrow> string \<Rightarrow> bool" where
  "authenticates cfg rt req s uid =
     (X_Api_Key req = TRUSTED_SERVICE_API_KEY cfg \<and> auth_failure_of cfg rt req s = None \<and>
      (case Authorization req of
         None \<Rightarrow> False
       | Some h \<Rightarrow>
           (case jws rt (bearer_token h) of
              None \<Rightarrow> False
            | Some t \<Rightarrow> jwt_sub t = Some uid)))"

text \<open>The outcome the decorator reports for each cause.\<close>

fun reported :: "auth_failure \<Rightarrow> response" where
  "reported Header_invalid = Json 401 (JObj [(''message'', JStr ''Missing or invalid Authorization header.'')])"
| "reported Secret_absent = Json 500 (JObj [(''message'', JStr ''Server misconfiguration.'')])"
| "reported Token_malformed = Json 401 (JObj [(''message'', JStr ''Invalid format.'')])"
| "reported Signature_invalid = Json 401 (JObj [(''message'', JStr ''Invalid format.'')])"
| "reported Token_expired = Json 401 (JObj [(''message'', JStr ''JWT has expired.'')])"
| "reported Subject_missing = Json 401 (JObj [(''message'', JStr ''Invalid JWT payload.'')])"
| "reported Subject_unknown = Json 404 (JObj [(''message'', JStr ''User not found in database.'')])"

section \<open>Decimal strings\<close>

definition is_decimal :: "string \<Rightarrow> bool" where
  "is_decimal t = (t \<noteq> [] \<and> list_all is_digit t)"

definition decimal_value :: "string \<Rightarrow> nat" where
  "decimal_value t = foldl (\<lambda>a c. 10 * a + digit_val c) 0 t"

section \<open>Example data\<close>

text \<open>The configuration of \<^verbatim>\<open>TestingConfig\<close>, a runtime with the limits of SQLite (64-bit
  integers, no length check on strings, scalars only) and a handful of tokens, and the
  store of the tests: one identity, no rows.\<close>

definition test_config :: config where
  "test_config = \<lparr>SUPABASE_JWT_SECRET = Some ''test-jwt-secret'', TRUSTED_SERVICE_API_KEY = Some ''test-api-key''\<rparr>"

definition example_tokens :: "string \<Rightarrow> jwt option" where
  "example_tokens tok =
     (if tok = ''valid'' then
        Some \<lparr>jwt_alg = ''HS256'', jwt_signed_with = Some ''test-jwt-secret'', jwt_exp = Some 5000, jwt_sub = Some ''U1''\<rparr>
      else if tok = ''expired'' then
        Some \<lparr>jwt_alg = ''HS256'', jwt_signed_with = Some ''test-jwt-secret'', jwt_exp = Some 10, jwt_sub = Some ''U1''\<rparr>
      else if tok = ''forged'' then
        Some \<lparr>jwt_alg = ''HS256'', jwt_signed_with = Some ''another-secret'', jwt_exp = Some 5000, jwt_sub = Some ''U1''\<rparr>
      else if tok = ''forged-expired'' then
        Some \<lparr>jwt_alg = ''HS256'', jwt_signed_with = Some ''another-secret'', jwt_exp = Some 10, jwt_sub = Some ''U1''\<rparr>
      else if tok = ''nosub'' then
        Some \<lparr>jwt_alg = ''HS256'', jwt_signed_with = Some ''test-jwt-secret'', jwt_exp = Some 5000, jwt_sub = None\<rparr>
      else if tok = ''stranger'' then
        Some \<lparr>jwt_alg = ''HS256'', jwt_signed_with = Some ''test-jwt-secret'', jwt_exp = Some 5000, jwt_sub = Some ''U9''\<rparr>
      else None)"

definition sqlite_runtime :: "int \<Rightarrow> runtime" where
  "sqlite_runtime t =
     \<lparr>now = t, jws = example_tokens,
      fits_integer = (\<lambda>i. - (2 ^ 63) \<le> i \<and> i < 2 ^ 63),
      fits_string = (\<lambda>n v. case v of JStr x \<Rightarrow> True | JInt x \<Rightarrow> True | JFloat x \<Rightarrow> True
                            | JBool x \<Rightarrow> True | JNull \<Rightarrow> False | JArr x \<Rightarrow> False | JObj x \<Rightarrow> False)\<rparr>"

definition fresh_store :: store where
  "fresh_store = \<lparr>users = [''U1''], balances = [], ledger = [], chronolog = []\<rparr>"

definition trusted_request :: "string \<Rightarrow> json \<Rightarrow> request" where
  "trusted_request tok body =
     \<lparr>Authorization = Some (''Bearer '' @ tok), X_Api_Key = Some ''test-api-key'', json_body = body\<rparr>"

definition credit_body :: "json \<Rightarrow> json \<Rightarrow> json" where
  "credit_body a d = JObj [(''amount'', a), (''description'', d)]"

text \<open>The scenario of the specification: 50 are credited at time 100, then 25 at time
  200.\<close>

definition after_bonus :: store where
  "after_bonus =
     snd (earn_kones_route test_config (sqlite_runtime 100)
            (trusted_request ''valid'' (credit_body (JInt 50) (JStr ''bonus''))) fresh_store)"

definition after_daily :: store where
  "after_daily =
     snd (earn_kones_route test_config (sqlite_runtime 200)
            (trusted_request ''valid'' (credit_body (JInt 25) (JStr ''daily''))) after_bonus)"

text \<open>A store of the wallet application: user 7 has a session and no balance row.\<close>

definition wallet_store :: store_t where
  "wallet_store =
     \<lparr>users_t = [\<lparr>ut_id = 7, ut_roaming_id = ''blue wave'', ut_registration_date = 1\<rparr>],
      login_records = [\<lparr>lr_id = 1, lr_user_id = 7, lr_login_username = ''blue-today-wave'', lr_login_timestamp = 2\<rparr>],
      balances_t = [], ledger_t = []\<rparr>"

text \<open>The same store with one ledger entry of user 7, and a later entry of user 7.\<close>

definition wallet_store_entry :: store_t where
  "wallet_store_entry =
     wallet_store\<lparr>ledger_t :=
       [\<lparr>klt_id = 1, klt_user_id = 7, klt_transaction_type = ''EARN'', klt_amount = 50,
         klt_description = Some ''bonus'', klt_timestamp = 100\<rparr>]\<rparr>"

definition wallet_entry_daily :: KonesLedger_t where
  "wallet_entry_daily =
     \<lparr>klt_id = 2, klt_user_id = 7, klt_transaction_type = ''EARN'', klt_amount = 25,
      klt_description = Some ''daily'', klt_timestamp = 200\<rparr>"

definition wallet_request :: request_t where
  "wallet_request = \<lparr>X_Auth_Username = Some ''blue-today-wave''\<rparr>"


section \<open>Facts about the decorators\<close>

text \<open>The token check answers with the outcome of the first cause of failure, and calls
  the handler with a stored identity when there is none.\<close>

lemma auth_outcome:
  "(case auth_failure_of cfg rt req s of
      Some m \<Rightarrow> get_user_from_auth_header cfg rt req f s = (reported m, s)
    | None \<Rightarrow> (\<exists>uid. List.member (users s) uid \<and> get_user_from_auth_header cfg rt req f s = f uid s))"
proof (cases "Authorization req")
  case None
  then show ?thesis
    by (simp add: auth_failure_of_def get_user_from_auth_header_def)
next
  case (Some h)
  note h = Some
  show ?thesis
  proof (cases "startswith ''Bearer '' h")
    case False
    with h show ?thesis
      by (simp add: auth_failure_of_def get_user_from_auth_header_def)
  next
    case True
    note b = True
    show ?thesis
    proof (cases "SUPABASE_JWT_SECRET cfg")
      case None
      with h b show ?thesis
        by (simp add: auth_failure_of_def get_user_from_auth_header_def)
    next
      case (Some k)
      note k = Some
      show ?thesis
      proof (cases "k = []")
        case True
        with h b k show ?thesis
          by (simp add: auth_failure_of_def get_user_from_auth_header_def)
      next
        case False
        note kne = False
        show ?thesis
        proof (cases "jws rt (bearer_token h)")
          case None
          with h b k kne show ?thesis
            by (simp add: auth_failure_of_def get_user_from_auth_header_def jwt_decode_def)
        next
          case (Some t)
          note t = Some
          show ?thesis
          proof (cases "jwt_alg t = ''HS256''")
            case False
            with h b k kne t show ?thesis
              by (simp add: auth_failure_of_def get_user_from_auth_header_def jwt_decode_def)
          next
            case True
            note alg = True
            show ?thesis
            proof (cases "jwt_signed_with t = Some k")
              case False
              with h b k kne t alg show ?thesis
                by (simp add: auth_failure_of_def get_user_from_auth_header_def jwt_decode_def)
            next
              case True
              note sg = True
              show ?thesis
              proof (cases "case jwt_exp t of None \<Rightarrow> False | Some e \<Rightarrow> e \<le> now rt")
                case True
                with h b k kne t alg sg show ?thesis
                  by (simp add: auth_failure_of_def get_user_from_auth_header_def jwt_decode_def
                      split: option.splits)
              next
                case False
                with h b k kne t alg sg show ?thesis
                  by (auto simp: auth_failure_of_def get_user_from_auth_header_def jwt_decode_def
                      split: option.splits)
              qed
            qed
          qed
        qed
      qed
    qed
  qed
qed

lemma auth_reports:
  "auth_failure_of cfg rt req s = Some m \<Longrightarrow>
     get_user_from_auth_header cfg rt req f s = (reported m, s)"
  using auth_outcome [where cfg = cfg and rt = rt and req = req and s = s and f = f] by simp

lemma auth_passes:
  "auth_failure_of cfg rt req s = None \<Longrightarrow>
     \<exists>uid. List.member (users s) uid \<and> get_user_from_auth_header cfg rt req f s = f uid s"
  using auth_outcome [where cfg = cfg and rt = rt and req = req and s = s and f = f] by simp

lemma reported_eq:
  "(reported m = reported m') =
     (m = m' \<or> (m \<in> {Token_malformed, Signature_invalid} \<and> m' \<in> {Token_malformed, Signature_invalid}))"
  by (cases m; cases m'; simp)

lemma reported_500: "(status_code (reported m) = 500) = (m = Secret_absent)"
  by (cases m) simp_all

lemma reported_not_200: "status_code (reported m) \<noteq> 200"
  by (cases m) simp_all


section \<open>Facts about the store\<close>

lemma find_update_first_same:
  "(\<And>x. key (f x) = key x) \<Longrightarrow>
     find (\<lambda>r. key r = u) (update_first (\<lambda>r. key r = u) f xs) = map_option f (find (\<lambda>r. key r = u) xs)"
  by (induction xs) auto

lemma find_update_first_other:
  "(\<And>x. key (f x) = key x) \<Longrightarrow> v \<noteq> u \<Longrightarrow>
     find (\<lambda>r. key r = v) (update_first (\<lambda>r. key r = u) f xs) = find (\<lambda>r. key r = v) xs"
  by (induction xs) auto

lemma filter_update_first_length:
  "(\<And>x. key (f x) = key x) \<Longrightarrow>
     length (filter (\<lambda>r. key r = v) (update_first (\<lambda>r. key r = u) f xs)) =
     length (filter (\<lambda>r. key r = v) xs)"
  by (induction xs) auto

lemma length_update_first: "length (update_first P f xs) = length xs"
  by (induction xs) auto

lemma find_append:
  "find P (xs @ ys) = (case find P xs of None \<Rightarrow> find P ys | Some x \<Rightarrow> Some x)"
  by (induction xs) auto

lemma balance_of_credited:
  "balance_of (credited rt u a d s) v = balance_of s v + (if v = u then a else 0)"
proof (cases "find (\<lambda>r. kb_user_auth_uid r = u) (balances s)")
  case None
  then show ?thesis
    by (auto simp: balance_of_def credited_def find_append split: option.splits)
next
  case (Some r)
  show ?thesis
  proof (cases "v = u")
    case True
    with Some show ?thesis
      by (simp add: balance_of_def credited_def find_update_first_same [where key = kb_user_auth_uid])
  next
    case False
    with Some show ?thesis
      by (simp add: balance_of_def credited_def find_update_first_other [where key = kb_user_auth_uid])
  qed
qed

lemma ledger_sum_credited:
  "ledger_sum (credited rt u a d s) v = ledger_sum s v + (if v = u then a else 0)"
  by (simp add: ledger_sum_def credited_def)

lemma balance_rows_credited:
  "length (balance_rows (credited rt u a d s) v) =
     (if v = u \<and> balance_rows s u = [] then 1 else length (balance_rows s v))"
proof (cases "find (\<lambda>r. kb_user_auth_uid r = u) (balances s)")
  case None
  then have "filter (\<lambda>r. kb_user_auth_uid r = u) (balances s) = []"
    by (simp add: find_None_iff filter_empty_conv)
  with None show ?thesis
    by (simp add: balance_rows_def credited_def)
next
  case (Some r)
  then have "filter (\<lambda>r. kb_user_auth_uid r = u) (balances s) \<noteq> []"
    by (auto simp: find_Some_iff filter_empty_conv)
  with Some show ?thesis
    by (simp add: balance_rows_def credited_def filter_update_first_length [where key = kb_user_auth_uid])
qed

lemma earn_kones_accepted:
  assumes "credit_accepted rt s u (json_body req) a d"
  shows "earn_kones rt req u s =
           (Json 200 (JObj [(''message'', JStr (''Successfully added '' @ show_int a @ '' Kones.'')),
                            (''new_balance'', JInt (balance_of s u + a))]),
            credited rt u a d s)"
proof (cases "json_body req")
  case (JObj kvs)
  with assms obtain raw where raw: "map_of kvs ''amount'' = Some raw"
    by (auto simp: credit_accepted_def split: option.splits)
  with assms JObj have c: "py_int raw = Inr a" "0 < a" "map_of kvs ''description'' = Some d" "d \<noteq> JNull"
      "fits_string rt 256 d" "fits_integer rt a" "fits_integer rt (balance_of s u + a)"
    by (simp_all add: credit_accepted_def)
  from raw have ne: "kvs \<noteq> []" by auto
  show ?thesis
    using JObj raw c ne
    by (cases "find (\<lambda>r. kb_user_auth_uid r = u) (balances s)")
       (simp_all add: earn_kones_def Let_def credited_def balance_of_def)
qed (use assms in \<open>simp_all add: credit_accepted_def\<close>)


lemma earn_kones_refused:
  assumes "\<not> (\<exists>a d. credit_accepted rt s u (json_body req) a d)"
  shows "snd (earn_kones rt req u s) = s \<and> status_code (fst (earn_kones rt req u s)) \<noteq> 200"
proof (cases "json_body req")
  case (JObj kvs)
  show ?thesis
  proof (cases "map_of kvs ''amount''")
    case None
    with JObj show ?thesis by (simp add: earn_kones_def Let_def)
  next
    case (Some raw)
    note raw = Some
    show ?thesis
    proof (cases "map_of kvs ''description''")
      case None
      with JObj raw show ?thesis by (simp add: earn_kones_def Let_def)
    next
      case (Some d)
      note d = Some
      show ?thesis
      proof (cases "py_int raw")
        case (Inl e)
        with JObj raw d show ?thesis by (simp add: earn_kones_def Let_def)
      next
        case (Inr a)
        from assms JObj raw d Inr
        have "\<not> (0 < a \<and> d \<noteq> JNull \<and> fits_string rt 256 d \<and> fits_integer rt a
                  \<and> fits_integer rt (balance_of s u + a))"
          by (simp add: credit_accepted_def)
        with JObj raw d Inr show ?thesis
          by (auto simp: earn_kones_def Let_def balance_of_def)
      qed
    qed
  qed
qed (simp_all add: earn_kones_def Let_def)

lemma earn_kones_cases:
  "(snd (earn_kones rt req u s) = s \<and> status_code (fst (earn_kones rt req u s)) \<noteq> 200)
   \<or> (\<exists>a d. credit_accepted rt s u (json_body req) a d \<and>
         earn_kones rt req u s =
           (Json 200 (JObj [(''message'', JStr (''Successfully added '' @ show_int a @ '' Kones.'')),
                            (''new_balance'', JInt (balance_of s u + a))]),
            credited rt u a d s))"
  using earn_kones_refused [of rt s u req] earn_kones_accepted [of rt s u req] by blast

section \<open>The token check\<close>

text \<open>
  C5, as the code has it. For a bearer token that is well formed and uses HS256, with a
  non-empty secret configured: when its signature verifies under the configured secret
  and its \<^verbatim>\<open>exp\<close> is not after the current time, it is rejected with the expiry outcome,
  401 and the message \<^verbatim>\<open>JWT has expired.\<close>; when its signature does not verify under the
  configured secret, it is rejected with 401 and the message \<^verbatim>\<open>Invalid format.\<close>, whether
  it is expired or not. In both cases the handler is not called and the store is left as
  it was.
\<close>

theorem expired_token_rejected:
  assumes "Authorization req = Some h" and "startswith ''Bearer '' h"
    and "SUPABASE_JWT_SECRET cfg = Some k" and "k \<noteq> []"
    and "jws rt (bearer_token h) = Some t" and "jwt_alg t = ''HS256''"
  shows "(jwt_signed_with t = Some k \<and> (\<exists>e. jwt_exp t = Some e \<and> e \<le> now rt) \<longrightarrow>
            get_user_from_auth_header cfg rt req f s =
              (Json 401 (JObj [(''message'', JStr ''JWT has expired.'')]), s))
       \<and> (jwt_signed_with t \<noteq> Some k \<longrightarrow>
            get_user_from_auth_header cfg rt req f s =
              (Json 401 (JObj [(''message'', JStr ''Invalid format.'')]), s))"
  using assms by (auto simp: get_user_from_auth_header_def jwt_decode_def)

theorem expired_token_rejected_witness:
  "posts_route test_config (sqlite_runtime 100) (trusted_request ''expired'' JNull) fresh_store
     = (Json 401 (JObj [(''message'', JStr ''JWT has expired.'')]), fresh_store)
   \<and> posts_route test_config (sqlite_runtime 100) (trusted_request ''forged'' JNull) fresh_store
     = (Json 401 (JObj [(''message'', JStr ''Invalid format.'')]), fresh_store)"
proof -
  have a: "Authorization (trusted_request ''expired'' JNull) = Some ''Bearer expired''"
    and a': "Authorization (trusted_request ''forged'' JNull) = Some ''Bearer forged''"
    by (simp_all add: trusted_request_def)
  have b: "startswith ''Bearer '' ''Bearer expired''" and b': "startswith ''Bearer '' ''Bearer forged''"
    by simp_all
  have c: "SUPABASE_JWT_SECRET test_config = Some ''test-jwt-secret''"
    by (simp add: test_config_def)
  have d: "''test-jwt-secret'' \<noteq> []" by simp
  have e: "jws (sqlite_runtime 100) (bearer_token ''Bearer expired'') =
      Some \<lparr>jwt_alg = ''HS256'', jwt_signed_with = Some ''test-jwt-secret'', jwt_exp = Some 10,
            jwt_sub = Some ''U1''\<rparr>"
    by (simp add: sqlite_runtime_def bearer_token_def example_tokens_def)
  have e': "jws (sqlite_runtime 100) (bearer_token ''Bearer forged'') =
      Some \<lparr>jwt_alg = ''HS256'', jwt_signed_with = Some ''another-secret'', jwt_exp = Some 5000,
            jwt_sub = Some ''U1''\<rparr>"
    by (simp add: sqlite_runtime_def bearer_token_def example_tokens_def)
  have g: "jwt_alg \<lparr>jwt_alg = ''HS256'', jwt_signed_with = Some ''test-jwt-secret'', jwt_exp = Some 10,
            jwt_sub = Some ''U1''\<rparr> = ''HS256''"
    and g': "jwt_alg \<lparr>jwt_alg = ''HS256'', jwt_signed_with = Some ''another-secret'', jwt_exp = Some 5000,
            jwt_sub = Some ''U1''\<rparr> = ''HS256''"
    by simp_all
  have n: "now (sqlite_runtime 100) = 100" by (simp add: sqlite_runtime_def)
  from expired_token_rejected [OF a b c d e g, of list_posts fresh_store, THEN conjunct1] n
  have 1: "get_user_from_auth_header test_config (sqlite_runtime 100)
             (trusted_request ''expired'' JNull) list_posts fresh_store
           = (Json 401 (JObj [(''message'', JStr ''JWT has expired.'')]), fresh_store)"
    by simp
  from expired_token_rejected [OF a' b' c d e' g', of list_posts fresh_store, THEN conjunct2]
  have 2: "get_user_from_auth_header test_config (sqlite_runtime 100)
             (trusted_request ''forged'' JNull) list_posts fresh_store
           = (Json 401 (JObj [(''message'', JStr ''Invalid format.'')]), fresh_store)"
    by simp
  from 1 2 show ?thesis by (simp add: posts_route_def)
qed

text \<open>
  C5 as stated fails: the signature is verified before the expiry is looked at, so an
  expired token whose signature does not verify under the configured secret is answered
  with \<^verbatim>\<open>Invalid format.\<close> and not with the expiry outcome.
\<close>

theorem forged_expired_token_counterexample:
  "map_option jwt_exp (jws (sqlite_runtime 100) ''forged-expired'') = Some (Some 10)
   \<and> now (sqlite_runtime 100) = 100
   \<and> posts_route test_config (sqlite_runtime 100) (trusted_request ''forged-expired'' JNull) fresh_store
       = (Json 401 (JObj [(''message'', JStr ''Invalid format.'')]), fresh_store)"
  by code_simp

text \<open>
  C6, as the code has it. A token check that fails for the cause \<open>m\<close> answers with the
  outcome of \<open>m\<close>: 401 \<^verbatim>\<open>Missing or invalid Authorization header.\<close> for a missing header
  or one without the Bearer prefix, 500 \<^verbatim>\<open>Server misconfiguration.\<close> for an absent secret,
  401 \<^verbatim>\<open>Invalid format.\<close> for a malformed token and for an invalid signature alike, 401
  \<^verbatim>\<open>JWT has expired.\<close> for an expired token, 401 \<^verbatim>\<open>Invalid JWT payload.\<close> for a missing
  subject, 404 \<^verbatim>\<open>User not found in database.\<close> for an unknown subject; the store is left
  as it was. Two failing checks report the same outcome exactly when they fail for the
  same cause or when each fails on a malformed token or an invalid signature; the status
  is 500 exactly when the signing secret is absent.
\<close>

theorem auth_failure_outcomes:
  assumes "auth_failure_of cfg rt req s = Some m"
    and "auth_failure_of cfg' rt' req' s' = Some m'"
  shows "get_user_from_auth_header cfg rt req f s =
           ((case m of
               Header_invalid \<Rightarrow>
                 Json 401 (JObj [(''message'', JStr ''Missing or invalid Authorization header.'')])
             | Secret_absent \<Rightarrow> Json 500 (JObj [(''message'', JStr ''Server misconfiguration.'')])
             | Token_malformed \<Rightarrow> Json 401 (JObj [(''message'', JStr ''Invalid format.'')])
             | Signature_invalid \<Rightarrow> Json 401 (JObj [(''message'', JStr ''Invalid format.'')])
             | Token_expired \<Rightarrow> Json 401 (JObj [(''message'', JStr ''JWT has expired.'')])
             | Subject_missing \<Rightarrow> Json 401 (JObj [(''message'', JStr ''Invalid JWT payload.'')])
             | Subject_unknown \<Rightarrow> Json 404 (JObj [(''message'', JStr ''User not found in database.'')])),
            s)
       \<and> (fst (get_user_from_auth_header cfg rt req f s) =
          fst (get_user_from_auth_header cfg' rt' req' f' s'))
         = (m = m' \<or> (m \<in> {Token_malformed, Signature_invalid}
                       \<and> m' \<in> {Token_malformed, Signature_invalid}))
       \<and> (status_code (fst (get_user_from_auth_header cfg rt req f s)) = 500) = (m = Secret_absent)
       \<and> snd (get_user_from_auth_header cfg rt req f s) = s"
proof -
  have "reported m =
          (case m of
               Header_invalid \<Rightarrow>
                 Json 401 (JObj [(''message'', JStr ''Missing or invalid Authorization header.'')])
             | Secret_absent \<Rightarrow> Json 500 (JObj [(''message'', JStr ''Server misconfiguration.'')])
             | Token_malformed \<Rightarrow> Json 401 (JObj [(''message'', JStr ''Invalid format.'')])
             | Signature_invalid \<Rightarrow> Json 401 (JObj [(''message'', JStr ''Invalid format.'')])
             | Token_expired \<Rightarrow> Json 401 (JObj [(''message'', JStr ''JWT has expired.'')])
             | Subject_missing \<Rightarrow> Json 401 (JObj [(''message'', JStr ''Invalid JWT payload.'')])
             | Subject_unknown \<Rightarrow> Json 404 (JObj [(''message'', JStr ''User not found in database.'')]))"
    by (cases m) simp_all
  with auth_reports [OF assms(1), of f]
  have c1: "get_user_from_auth_header cfg rt req f s =
           ((case m of
               Header_invalid \<Rightarrow>
                 Json 401 (JObj [(''message'', JStr ''Missing or invalid Authorization header.'')])
             | Secret_absent \<Rightarrow> Json 500 (JObj [(''message'', JStr ''Server misconfiguration.'')])
             | Token_malformed \<Rightarrow> Json 401 (JObj [(''message'', JStr ''Invalid format.'')])
             | Signature_invalid \<Rightarrow> Json 401 (JObj [(''message'', JStr ''Invalid format.'')])
             | Token_expired \<Rightarrow> Json 401 (JObj [(''message'', JStr ''JWT has expired.'')])
             | Subject_missing \<Rightarrow> Json 401 (JObj [(''message'', JStr ''Invalid JWT payload.'')])
             | Subject_unknown \<Rightarrow> Json 404 (JObj [(''message'', JStr ''User not found in database.'')])),
            s)"
    by (simp only:)
  have c2: "(fst (get_user_from_auth_header cfg rt req f s) =
          fst (get_user_from_auth_header cfg' rt' req' f' s'))
         = (m = m' \<or> (m \<in> {Token_malformed, Signature_invalid}
                       \<and> m' \<in> {Token_malformed, Signature_invalid}))"
    using auth_reports [OF assms(1), of f] auth_reports [OF assms(2), of f']
    by (simp add: reported_eq)
  have c3: "(status_code (fst (get_user_from_auth_header cfg rt req f s)) = 500) = (m = Secret_absent)"
    using auth_reports [OF assms(1), of f] by (simp add: reported_500)
  have c4: "snd (get_user_from_auth_header cfg rt req f s) = s"
    using auth_reports [OF assms(1), of f] by simp
  show ?thesis
    by (intro conjI) (rule c1 c2 c3 c4)+
qed

theorem auth_failure_outcomes_witness:
  "get_user_from_auth_header test_config (sqlite_runtime 100)
          (trusted_request ''expired'' JNull) list_posts fresh_store
     = (Json 401 (JObj [(''message'', JStr ''JWT has expired.'')]), fresh_store)
   \<and> get_user_from_auth_header test_config (sqlite_runtime 100)
          (trusted_request ''stranger'' JNull) list_posts fresh_store
     = (Json 404 (JObj [(''message'', JStr ''User not found in database.'')]), fresh_store)
   \<and> get_user_from_auth_header test_config (sqlite_runtime 100)
          (trusted_request ''nosub'' JNull) list_posts fresh_store
     = (Json 401 (JObj [(''message'', JStr ''Invalid JWT payload.'')]), fresh_store)"
proof -
  have a: "auth_failure_of test_config (sqlite_runtime 100) (trusted_request ''expired'' JNull) fresh_store
             = Some Token_expired"
    by code_simp
  have b: "auth_failure_of test_config (sqlite_runtime 100) (trusted_request ''stranger'' JNull) fresh_store
             = Some Subject_unknown"
    by code_simp
  have c: "auth_failure_of test_config (sqlite_runtime 100) (trusted_request ''nosub'' JNull) fresh_store
             = Some Subject_missing"
    by code_simp
  from auth_failure_outcomes [OF a b, of list_posts list_posts, THEN conjunct1]
    auth_failure_outcomes [OF b c, of list_posts list_posts, THEN conjunct1]
    auth_failure_outcomes [OF c a, of list_posts list_posts, THEN conjunct1]
  show ?thesis by simp
qed

text \<open>
  C6 as stated fails: a malformed token and a token with an invalid signature are two
  failure modes with one reported outcome.
\<close>

theorem malformed_and_forged_share_outcome_counterexample:
  "auth_failure_of test_config (sqlite_runtime 100) (trusted_request ''garbage'' JNull) fresh_store
     = Some Token_malformed
   \<and> auth_failure_of test_config (sqlite_runtime 100) (trusted_request ''forged'' JNull) fresh_store
     = Some Signature_invalid
   \<and> posts_route test_config (sqlite_runtime 100) (trusted_request ''garbage'' JNull) fresh_store
     = (Json 401 (JObj [(''message'', JStr ''Invalid format.'')]), fresh_store)
   \<and> posts_route test_config (sqlite_runtime 100) (trusted_request ''forged'' JNull) fresh_store
     = (Json 401 (JObj [(''message'', JStr ''Invalid format.'')]), fresh_store)"
  by code_simp

section \<open>The shared-secret gate\<close>

text \<open>
  C7. A request whose \<^verbatim>\<open>X-Api-Key\<close> differs from the configured key, be it a wrong key,
  a key that is off by one character or no key at all, gets the one outcome 403 with the
  message \<^verbatim>\<open>Invalid API Key for trusted service.\<close> from the gate and from both gated
  routes, and the store is left as it was.
\<close>

theorem shared_secret_mismatch_is_generic:
  assumes "X_Api_Key req \<noteq> TRUSTED_SERVICE_API_KEY cfg"
  shows "trusted_service_required cfg req f s =
           (Json 403 (JObj [(''message'', JStr ''Invalid API Key for trusted service.'')]), s)
       \<and> earn_kones_route cfg rt req s =
           (Json 403 (JObj [(''message'', JStr ''Invalid API Key for trusted service.'')]), s)
       \<and> webhook_sync_route cfg rt req s =
           (Json 403 (JObj [(''message'', JStr ''Invalid API Key for trusted service.'')]), s)"
  using assms by (simp add: trusted_service_required_def earn_kones_route_def webhook_sync_route_def)

theorem shared_secret_mismatch_is_generic_witness:
  "earn_kones_route test_config (sqlite_runtime 100)
      \<lparr>Authorization = Some ''Bearer valid'', X_Api_Key = Some ''test-api-kez'',
       json_body = credit_body (JInt 50) (JStr ''bonus'')\<rparr> fresh_store
     = (Json 403 (JObj [(''message'', JStr ''Invalid API Key for trusted service.'')]), fresh_store)
   \<and> earn_kones_route test_config (sqlite_runtime 100)
      \<lparr>Authorization = Some ''Bearer valid'', X_Api_Key = Some ''wrong-key'',
       json_body = credit_body (JInt 50) (JStr ''bonus'')\<rparr> fresh_store
     = (Json 403 (JObj [(''message'', JStr ''Invalid API Key for trusted service.'')]), fresh_store)
   \<and> earn_kones_route test_config (sqlite_runtime 100)
      \<lparr>Authorization = Some ''Bearer valid'', X_Api_Key = None,
       json_body = credit_body (JInt 50) (JStr ''bonus'')\<rparr> fresh_store
     = (Json 403 (JObj [(''message'', JStr ''Invalid API Key for trusted service.'')]), fresh_store)"
proof -
  have a: "X_Api_Key \<lparr>Authorization = Some ''Bearer valid'', X_Api_Key = Some ''test-api-kez'',
       json_body = credit_body (JInt 50) (JStr ''bonus'')\<rparr> \<noteq> TRUSTED_SERVICE_API_KEY test_config"
    by (simp add: test_config_def)
  have b: "X_Api_Key \<lparr>Authorization = Some ''Bearer valid'', X_Api_Key = Some ''wrong-key'',
       json_body = credit_body (JInt 50) (JStr ''bonus'')\<rparr> \<noteq> TRUSTED_SERVICE_API_KEY test_config"
    by (simp add: test_config_def)
  have c: "X_Api_Key \<lparr>Authorization = Some ''Bearer valid'', X_Api_Key = None,
       json_body = credit_body (JInt 50) (JStr ''bonus'')\<rparr> \<noteq> TRUSTED_SERVICE_API_KEY test_config"
    by (simp add: test_config_def)
  from shared_secret_mismatch_is_generic [OF a] shared_secret_mismatch_is_generic [OF b]
    shared_secret_mismatch_is_generic [OF c]
  show ?thesis by simp
qed

section \<open>Facts about the routes\<close>

lemma earn_kones_route_cases:
  "(snd (earn_kones_route cfg rt req s) = s \<and> status_code (fst (earn_kones_route cfg rt req s)) \<noteq> 200)
   \<or> (\<exists>u. List.member (users s) u \<and> earn_kones_route cfg rt req s = earn_kones rt req u s)"
proof (cases "X_Api_Key req \<noteq> TRUSTED_SERVICE_API_KEY cfg")
  case True
  then show ?thesis by (simp add: earn_kones_route_def trusted_service_required_def)
next
  case False
  then have r: "earn_kones_route cfg rt req s = get_user_from_auth_header cfg rt req (earn_kones rt req) s"
    by (simp add: earn_kones_route_def trusted_service_required_def)
  show ?thesis
  proof (cases "auth_failure_of cfg rt req s")
    case None
    from auth_passes [OF None, of "earn_kones rt req"] r show ?thesis by auto
  next
    case (Some m)
    from auth_reports [OF Some, of "earn_kones rt req"] r show ?thesis
      by (simp add: reported_not_200)
  qed
qed

lemma webhook_sync_frame:
  "balances (snd (webhook_sync rt req u s)) = balances s
   \<and> ledger (snd (webhook_sync rt req u s)) = ledger s
   \<and> users (snd (webhook_sync rt req u s)) = users s"
  by (simp add: webhook_sync_def Let_def split: sum.splits json.splits)

lemma webhook_sync_route_cases:
  "snd (webhook_sync_route cfg rt req s) = s
   \<or> (\<exists>u. List.member (users s) u \<and> webhook_sync_route cfg rt req s = webhook_sync rt req u s)"
proof (cases "X_Api_Key req \<noteq> TRUSTED_SERVICE_API_KEY cfg")
  case True
  then show ?thesis by (simp add: webhook_sync_route_def trusted_service_required_def)
next
  case False
  then have r: "webhook_sync_route cfg rt req s = get_user_from_auth_header cfg rt req (webhook_sync rt req) s"
    by (simp add: webhook_sync_route_def trusted_service_required_def)
  show ?thesis
  proof (cases "auth_failure_of cfg rt req s")
    case None
    from auth_passes [OF None, of "webhook_sync rt req"] r show ?thesis by auto
  next
    case (Some m)
    from auth_reports [OF Some, of "webhook_sync rt req"] r show ?thesis by simp
  qed
qed

lemma webhook_sync_route_frame:
  "balances (snd (webhook_sync_route cfg rt req s)) = balances s
   \<and> ledger (snd (webhook_sync_route cfg rt req s)) = ledger s"
  using webhook_sync_route_cases [of cfg rt req s] webhook_sync_frame by auto

lemma posts_route_frame: "snd (posts_route cfg rt req s) = s"
proof (cases "auth_failure_of cfg rt req s")
  case None
  from auth_passes [OF None, of list_posts] show ?thesis
    by (auto simp: posts_route_def list_posts_def)
next
  case (Some m)
  from auth_reports [OF Some, of list_posts] show ?thesis by (simp add: posts_route_def)
qed

lemma consistent_frame:
  assumes "balances s' = balances s" and "ledger s' = ledger s"
  shows "balance_rows s' uid = balance_rows s uid \<and> balance_of s' uid = balance_of s uid
         \<and> ledger_sum s' uid = ledger_sum s uid"
  using assms by (simp add: balance_rows_def balance_of_def ledger_sum_def)

lemma consistent_credited:
  assumes "length (balance_rows s uid) \<le> 1 \<and> balance_of s uid = ledger_sum s uid"
  shows "length (balance_rows (credited rt u a d s) uid) \<le> 1
         \<and> balance_of (credited rt u a d s) uid = ledger_sum (credited rt u a d s) uid"
  using assms by (simp add: balance_rows_credited balance_of_credited ledger_sum_credited)

lemma reachable_consistent:
  "reachable s \<Longrightarrow> length (balance_rows s uid) \<le> 1 \<and> balance_of s uid = ledger_sum s uid"
proof (induction arbitrary: uid rule: reachable.induct)
  case (fresh s)
  then show ?case by (simp add: balance_rows_def balance_of_def ledger_sum_def)
next
  case (signup s u)
  from signup.IH [of uid] show ?case
    by (simp add: balance_rows_def balance_of_def ledger_sum_def)
next
  case (posts s cfg rt req)
  from posts.IH [of uid] show ?case by (simp add: posts_route_frame)
next
  case (earn s cfg rt req)
  show ?case
  proof (cases "snd (earn_kones_route cfg rt req s) = s")
    case True
    with earn.IH [of uid] show ?thesis by simp
  next
    case False
    with earn_kones_route_cases [of cfg rt req s]
    obtain u where u: "earn_kones_route cfg rt req s = earn_kones rt req u s" by blast
    with False have "snd (earn_kones rt req u s) \<noteq> s" by simp
    with earn_kones_cases [of rt req u s]
    obtain a d where "earn_kones rt req u s = (fst (earn_kones rt req u s), credited rt u a d s)"
      by auto
    with u have "snd (earn_kones_route cfg rt req s) = credited rt u a d s"
      by (metis snd_conv)
    with consistent_credited [OF earn.IH [of uid]] show ?thesis by simp
  qed
next
  case (webhook s cfg rt req)
  from consistent_frame [of "snd (webhook_sync_route cfg rt req s)" s uid]
    webhook_sync_route_frame [of cfg rt req s] webhook.IH [of uid]
  show ?case by simp
qed

lemma require_auth_cases:
  "snd (require_auth req f s) = s \<or> (\<exists>user. require_auth req f s = f user s)"
  by (auto simp: require_auth_def split: option.splits)

lemma get_kones_balance_keeps_balance:
  "balance_of_t (snd (get_kones_balance user s)) u = balance_of_t s u
   \<and> ledger_sum_t (snd (get_kones_balance user s)) u = ledger_sum_t s u"
  by (auto simp: get_kones_balance_def balance_of_t_def ledger_sum_t_def find_append
      split: option.splits)

lemma kones_balance_route_keeps_balance:
  "balance_of_t (snd (kones_balance_route req s)) u = balance_of_t s u
   \<and> ledger_sum_t (snd (kones_balance_route req s)) u = ledger_sum_t s u"
  using require_auth_cases [of req get_kones_balance s]
  by (metis get_kones_balance_keeps_balance kones_balance_route_def)

lemma kones_ledger_route_frame: "snd (kones_ledger_route req s) = s"
  using require_auth_cases [of req get_kones_ledger s]
  by (auto simp: kones_ledger_route_def get_kones_ledger_def Let_def)

section \<open>The ledger invariant\<close>

text \<open>
  C1. In every store the secured application reaches from a store without balance and
  ledger rows, by signups and by requests to its routes in any number and order (credits,
  webhook recordings, the posts route; answered or refused), every identity has at most
  one balance row and its balance, 0 when it has no row, is the sum of the amounts of its
  ledger entries. The two reads of the wallet application keep the equation: after a
  balance read or a ledger-history read it holds for every user when it held before.
\<close>

theorem balance_equals_ledger_sum:
  "(reachable s \<longrightarrow> length (balance_rows s uid) \<le> 1 \<and> balance_of s uid = ledger_sum s uid)
   \<and> ((\<forall>u. balance_of_t t u = ledger_sum_t t u) \<longrightarrow>
        (\<forall>u. balance_of_t (snd (kones_balance_route rq t)) u
                = ledger_sum_t (snd (kones_balance_route rq t)) u
            \<and> balance_of_t (snd (kones_ledger_route rq t)) u
                = ledger_sum_t (snd (kones_ledger_route rq t)) u))"
  using reachable_consistent [of s uid]
  by (simp add: kones_balance_route_keeps_balance kones_ledger_route_frame)

theorem balance_equals_ledger_sum_witness:
  "length (balance_rows after_daily ''U1'') \<le> 1
   \<and> balance_of after_daily ''U1'' = 75 \<and> ledger_sum after_daily ''U1'' = 75
   \<and> balance_of_t (snd (kones_balance_route wallet_request wallet_store)) 7 = 0
   \<and> ledger_sum_t (snd (kones_balance_route wallet_request wallet_store)) 7 = 0"
proof -
  have "reachable fresh_store"
    by (rule reachable.fresh) (simp_all add: fresh_store_def)
  then have "reachable after_bonus"
    unfolding after_bonus_def by (rule reachable.earn)
  then have r: "reachable after_daily"
    unfolding after_daily_def by (rule reachable.earn)
  have w: "\<forall>u. balance_of_t wallet_store u = ledger_sum_t wallet_store u"
    by (simp add: balance_of_t_def ledger_sum_t_def wallet_store_def)
  have b: "balance_of after_daily ''U1'' = 75"
    by code_simp
  have l: "ledger_sum_t (snd (kones_balance_route wallet_request wallet_store)) 7 = 0"
    by code_simp
  from balance_equals_ledger_sum [of after_daily "''U1''" wallet_store wallet_request] r w b l
  show ?thesis by simp
qed

section \<open>Authenticated requests\<close>

lemma authenticates_token:
  assumes "authenticates cfg rt req s uid"
  shows "\<exists>h t k. Authorization req = Some h \<and> startswith ''Bearer '' h
           \<and> SUPABASE_JWT_SECRET cfg = Some k \<and> k \<noteq> []
           \<and> jws rt (bearer_token h) = Some t \<and> jwt_alg t = ''HS256''
           \<and> jwt_signed_with t = Some k
           \<and> (case jwt_exp t of None \<Rightarrow> True | Some e \<Rightarrow> \<not> e \<le> now rt)
           \<and> jwt_sub t = Some uid \<and> uid \<noteq> [] \<and> List.member (users s) uid"
proof -
  from assms obtain h where h: "Authorization req = Some h"
    by (auto simp: authenticates_def split: option.splits)
  with assms obtain t where t: "jws rt (bearer_token h) = Some t" and sub: "jwt_sub t = Some uid"
    by (auto simp: authenticates_def split: option.splits)
  from assms have n: "auth_failure_of cfg rt req s = None"
    by (simp add: authenticates_def)
  have b: "startswith ''Bearer '' h"
    using n h by (cases "startswith ''Bearer '' h") (simp_all add: auth_failure_of_def)
  obtain k where k: "SUPABASE_JWT_SECRET cfg = Some k" and kne: "k \<noteq> []"
    using n h b by (cases "SUPABASE_JWT_SECRET cfg") (auto simp: auth_failure_of_def split: if_splits)
  have alg: "jwt_alg t = ''HS256''"
    using n h b k kne t by (cases "jwt_alg t = ''HS256''") (simp_all add: auth_failure_of_def)
  have sg: "jwt_signed_with t = Some k"
    using n h b k kne t alg by (cases "jwt_signed_with t = Some k") (simp_all add: auth_failure_of_def)
  have ex: "case jwt_exp t of None \<Rightarrow> True | Some e \<Rightarrow> \<not> e \<le> now rt"
    using n h b k kne t alg sg
    by (cases "jwt_exp t") (simp_all add: auth_failure_of_def split: if_splits)
  have "\<not> (case jwt_exp t of None \<Rightarrow> False | Some e \<Rightarrow> e \<le> now rt)"
    using ex by (cases "jwt_exp t") simp_all
  then have u: "uid \<noteq> [] \<and> List.member (users s) uid"
    using n h b k kne t alg sg sub
    by (cases "uid = []"; cases "List.member (users s) uid") (simp_all add: auth_failure_of_def)
  from h b k kne t alg sg ex sub u show ?thesis by blast
qed

lemma authenticates_decorators:
  assumes "authenticates cfg rt req s uid"
  shows "trusted_service_required cfg req g s = g s
       \<and> get_user_from_auth_header cfg rt req f s = f uid s"
proof -
  from authenticates_token [OF assms] obtain h t k where
    f: "Authorization req = Some h" "startswith ''Bearer '' h"
       "SUPABASE_JWT_SECRET cfg = Some k" "k \<noteq> []"
       "jws rt (bearer_token h) = Some t" "jwt_alg t = ''HS256''"
       "jwt_signed_with t = Some k"
       "case jwt_exp t of None \<Rightarrow> True | Some e \<Rightarrow> \<not> e \<le> now rt"
       "jwt_sub t = Some uid" "uid \<noteq> []" "List.member (users s) uid"
    by blast
  have "get_user_from_auth_header cfg rt req f s = f uid s"
    using f by (cases "jwt_exp t") (simp_all add: get_user_from_auth_header_def jwt_decode_def)
  moreover from assms have "trusted_service_required cfg req g s = g s"
    by (simp add: authenticates_def trusted_service_required_def)
  ultimately show ?thesis by simp
qed

lemma authenticates_earn:
  "authenticates cfg rt req s uid \<Longrightarrow> earn_kones_route cfg rt req s = earn_kones rt req uid s"
  using authenticates_decorators [of cfg rt req s uid] by (simp add: earn_kones_route_def)

lemma authenticates_webhook:
  "authenticates cfg rt req s uid \<Longrightarrow> webhook_sync_route cfg rt req s = webhook_sync rt req uid s"
  using authenticates_decorators [of cfg rt req s uid] by (simp add: webhook_sync_route_def)

lemma authenticates_example:
  "authenticates test_config (sqlite_runtime n) (trusted_request ''valid'' body) fresh_store ''U1'' = (n < 5000)"
  by (simp add: authenticates_def auth_failure_of_def test_config_def sqlite_runtime_def
      trusted_request_def fresh_store_def bearer_token_def example_tokens_def)

section \<open>The credit and the history\<close>

lemma order_by_desc_newest:
  assumes "\<And>r. r \<in> set xs \<Longrightarrow> col r < col x"
  shows "order_by_desc col (xs @ [x]) = x # order_by_desc col xs"
  using assms
proof (induction xs)
  case Nil
  then show ?case by (simp add: order_by_desc_def)
next
  case (Cons a xs)
  then have "order_by_desc col (xs @ [x]) = x # order_by_desc col xs" by simp
  moreover from Cons.prems have "col a < col x" by simp
  ultimately show ?case by (simp add: order_by_desc_def)
qed

lemma require_auth_session:
  "require_auth rq f t =
     (case session_user rq t of
        None \<Rightarrow> (fst (require_auth rq f t), t)
      | Some user \<Rightarrow> f user t)"
proof (cases "X_Auth_Username rq")
  case None
  then show ?thesis by (simp add: require_auth_def session_user_def)
next
  case (Some n)
  note n = Some
  show ?thesis
  proof (cases "n = []")
    case True
    with n show ?thesis by (simp add: require_auth_def session_user_def)
  next
    case False
    note ne = False
    show ?thesis
    proof (cases "first_row (order_by_desc lr_login_timestamp
                    (filter (\<lambda>r. lr_login_username r = n) (login_records t)))")
      case None
      with n ne show ?thesis by (simp add: require_auth_def session_user_def)
    next
      case (Some login)
      with n ne show ?thesis
        by (cases "find (\<lambda>u. ut_id u = lr_user_id login) (users_t t)")
           (simp_all add: require_auth_def session_user_def)
    qed
  qed
qed

lemma session_user_ledger:
  "session_user rq (t\<lparr>ledger_t := l\<rparr>) = session_user rq t"
  by (simp add: session_user_def cong: option.case_cong if_cong)

lemma get_kones_ledger_newest:
  assumes "klt_user_id entry = ut_id user"
    and "\<forall>r \<in> set (ledger_t t). klt_user_id r = ut_id user \<longrightarrow> klt_timestamp r < klt_timestamp entry"
  shows "\<exists>older.
           get_kones_ledger user t = (Json 200 (JArr older), t)
         \<and> get_kones_ledger user (t\<lparr>ledger_t := ledger_t t @ [entry]\<rparr>) =
             (Json 200
                (JArr (JObj [(''timestamp'', JInt (klt_timestamp entry)),
                             (''type'', JStr (klt_transaction_type entry)),
                             (''amount'', JInt (klt_amount entry)),
                             (''description'',
                                (case klt_description entry of None \<Rightarrow> JNull | Some d \<Rightarrow> JStr d))]
                       # older)),
              t\<lparr>ledger_t := ledger_t t @ [entry]\<rparr>)"
proof -
  have "order_by_desc klt_timestamp (filter (\<lambda>r. klt_user_id r = ut_id user) (ledger_t t) @ [entry])
        = entry # order_by_desc klt_timestamp (filter (\<lambda>r. klt_user_id r = ut_id user) (ledger_t t))"
    using assms(2) by (intro order_by_desc_newest) simp
  with assms(1) show ?thesis
    by (simp add: get_kones_ledger_def ledger_query_def Let_def)
qed

text \<open>
  C2, as the code has it. For a request that passes both decorators of the secured
  application as the identity \<open>uid\<close>, with a JSON object whose \<^verbatim>\<open>amount\<close> converts to
  \<open>a > 0\<close> and whose \<^verbatim>\<open>description\<close> is a non-empty string, with values the engine takes:
  the credit answers 200 with \<^verbatim>\<open>new_balance\<close> equal to the balance before (0 without a
  balance row) plus \<open>a\<close>, the balance afterwards is that number, and the ledger table has
  exactly one more row, the last one, of \<open>uid\<close>, of amount \<open>a\<close> and stamped with the clock
  reading of the request. The ledger history is a route of the wallet application and
  reads the ledger table of that application, which no credit writes: for the user of
  the session it lists the entries of the user newest first, so that an entry that is
  added to that table with a timestamp later than those of all entries of the user is the
  head of the history, before the entries that were listed until then.
\<close>

theorem credit_adds_amount_and_ledger_entry:
  assumes "authenticates cfg rt req s uid"
    and "json_body req = JObj kvs"
    and "map_of kvs ''amount'' = Some raw" and "py_int raw = Inr a" and "0 < a"
    and "map_of kvs ''description'' = Some (JStr d)" and "d \<noteq> []"
    and "fits_string rt 256 (JStr d)" and "fits_integer rt a"
    and "fits_integer rt (balance_of s uid + a)"
  shows "(\<exists>s' e.
           earn_kones_route cfg rt req s =
             (Json 200 (JObj [(''message'', JStr (''Successfully added '' @ show_int a @ '' Kones.'')),
                              (''new_balance'', JInt (balance_of s uid + a))]), s')
         \<and> balance_of s' uid = balance_of s uid + a
         \<and> ledger s' = ledger s @ [e] \<and> kl_user_auth_uid e = uid \<and> kl_amount e = a
         \<and> kl_timestamp e = now rt)
       \<and> (session_user rq t = Some user \<and> klt_user_id entry = ut_id user
            \<and> (\<forall>r \<in> set (ledger_t t). klt_user_id r = ut_id user \<longrightarrow>
                   klt_timestamp r < klt_timestamp entry) \<longrightarrow>
          (\<exists>older.
             kones_ledger_route rq t = (Json 200 (JArr older), t)
           \<and> kones_ledger_route rq (t\<lparr>ledger_t := ledger_t t @ [entry]\<rparr>) =
               (Json 200
                  (JArr (JObj [(''timestamp'', JInt (klt_timestamp entry)),
                               (''type'', JStr (klt_transaction_type entry)),
                               (''amount'', JInt (klt_amount entry)),
                               (''description'',
                                  (case klt_description entry of None \<Rightarrow> JNull | Some d \<Rightarrow> JStr d))]
                         # older)),
                t\<lparr>ledger_t := ledger_t t @ [entry]\<rparr>)))"
proof (rule conjI)
  have "credit_accepted rt s uid (json_body req) a (JStr d)"
    using assms(2-10) by (simp add: credit_accepted_def)
  from earn_kones_accepted [OF this] assms(1)
  have r: "earn_kones_route cfg rt req s =
             (Json 200 (JObj [(''message'', JStr (''Successfully added '' @ show_int a @ '' Kones.'')),
                              (''new_balance'', JInt (balance_of s uid + a))]),
              credited rt uid a (JStr d) s)"
    by (simp add: authenticates_earn)
  have l: "ledger (credited rt uid a (JStr d) s) =
             ledger s @ [\<lparr>kl_id = next_id (map kl_id (ledger s)), kl_user_auth_uid = uid,
                          kl_amount = a, kl_description = JStr d, kl_timestamp = now rt\<rparr>]"
    by (simp add: credited_def)
  from r l balance_of_credited [of rt uid a "JStr d" s uid]
  show "\<exists>s' e.
           earn_kones_route cfg rt req s =
             (Json 200 (JObj [(''message'', JStr (''Successfully added '' @ show_int a @ '' Kones.'')),
                              (''new_balance'', JInt (balance_of s uid + a))]), s')
         \<and> balance_of s' uid = balance_of s uid + a
         \<and> ledger s' = ledger s @ [e] \<and> kl_user_auth_uid e = uid \<and> kl_amount e = a
         \<and> kl_timestamp e = now rt"
    by simp
next
  show "session_user rq t = Some user \<and> klt_user_id entry = ut_id user
            \<and> (\<forall>r \<in> set (ledger_t t). klt_user_id r = ut_id user \<longrightarrow>
                   klt_timestamp r < klt_timestamp entry) \<longrightarrow>
          (\<exists>older.
             kones_ledger_route rq t = (Json 200 (JArr older), t)
           \<and> kones_ledger_route rq (t\<lparr>ledger_t := ledger_t t @ [entry]\<rparr>) =
               (Json 200
                  (JArr (JObj [(''timestamp'', JInt (klt_timestamp entry)),
                               (''type'', JStr (klt_transaction_type entry)),
                               (''amount'', JInt (klt_amount entry)),
                               (''description'',
                                  (case klt_description entry of None \<Rightarrow> JNull | Some d \<Rightarrow> JStr d))]
                         # older)),
                t\<lparr>ledger_t := ledger_t t @ [entry]\<rparr>))"
  proof
    assume h: "session_user rq t = Some user \<and> klt_user_id entry = ut_id user
            \<and> (\<forall>r \<in> set (ledger_t t). klt_user_id r = ut_id user \<longrightarrow>
                   klt_timestamp r < klt_timestamp entry)"
    then have 1: "kones_ledger_route rq t = get_kones_ledger user t"
      using require_auth_session [of rq get_kones_ledger t]
      by (simp add: kones_ledger_route_def)
    from h have 2: "kones_ledger_route rq (t\<lparr>ledger_t := ledger_t t @ [entry]\<rparr>)
                      = get_kones_ledger user (t\<lparr>ledger_t := ledger_t t @ [entry]\<rparr>)"
      using require_auth_session [of rq get_kones_ledger "t\<lparr>ledger_t := ledger_t t @ [entry]\<rparr>"]
      by (simp add: kones_ledger_route_def session_user_ledger)
    from h get_kones_ledger_newest [of entry user t] 1 2
    show "\<exists>older.
             kones_ledger_route rq t = (Json 200 (JArr older), t)
           \<and> kones_ledger_route rq (t\<lparr>ledger_t := ledger_t t @ [entry]\<rparr>) =
               (Json 200
                  (JArr (JObj [(''timestamp'', JInt (klt_timestamp entry)),
                               (''type'', JStr (klt_transaction_type entry)),
                               (''amount'', JInt (klt_amount entry)),
                               (''description'',
                                  (case klt_description entry of None \<Rightarrow> JNull | Some d \<Rightarrow> JStr d))]
                         # older)),
                t\<lparr>ledger_t := ledger_t t @ [entry]\<rparr>)"
      by simp
  qed
qed

theorem credit_adds_amount_and_ledger_entry_witness:
  "earn_kones_route test_config (sqlite_runtime 200)
       (trusted_request ''valid'' (credit_body (JInt 25) (JStr ''daily''))) after_bonus
     = (Json 200 (JObj [(''message'', JStr ''Successfully added 25 Kones.''),
                        (''new_balance'', JInt 75)]), after_daily)
   \<and> balance_of after_daily ''U1'' = 75
   \<and> map kl_amount (ledger after_daily) = [50, 25]
   \<and> kones_ledger_route wallet_request
        (wallet_store_entry\<lparr>ledger_t := ledger_t wallet_store_entry @ [wallet_entry_daily]\<rparr>)
     = (Json 200
          (JArr [JObj [(''timestamp'', JInt 200), (''type'', JStr ''EARN''), (''amount'', JInt 25),
                       (''description'', JStr ''daily'')],
                 JObj [(''timestamp'', JInt 100), (''type'', JStr ''EARN''), (''amount'', JInt 50),
                       (''description'', JStr ''bonus'')]]),
        wallet_store_entry\<lparr>ledger_t := ledger_t wallet_store_entry @ [wallet_entry_daily]\<rparr>)"
proof -
  have 1: "authenticates test_config (sqlite_runtime 200)
             (trusted_request ''valid'' (credit_body (JInt 25) (JStr ''daily''))) after_bonus ''U1''"
    by code_simp
  have 2: "json_body (trusted_request ''valid'' (credit_body (JInt 25) (JStr ''daily'')))
             = JObj [(''amount'', JInt 25), (''description'', JStr ''daily'')]"
    by (simp add: trusted_request_def credit_body_def)
  have 3: "map_of [(''amount'', JInt 25), (''description'', JStr ''daily'')] ''amount'' = Some (JInt 25)"
    by simp
  have 4: "py_int (JInt 25) = Inr 25" by simp
  have 5: "(0::int) < 25" by simp
  have 6: "map_of [(''amount'', JInt 25), (''description'', JStr ''daily'')] ''description''
             = Some (JStr ''daily'')"
    by simp
  have 7: "''daily'' \<noteq> []" by simp
  have 8: "fits_string (sqlite_runtime 200) 256 (JStr ''daily'')"
    by (simp add: sqlite_runtime_def)
  have 9: "fits_integer (sqlite_runtime 200) 25"
    by (simp add: sqlite_runtime_def)
  have b: "balance_of after_bonus ''U1'' = 50" by code_simp
  have 10: "fits_integer (sqlite_runtime 200) (balance_of after_bonus ''U1'' + 25)"
    by (simp add: b sqlite_runtime_def)
  note T = credit_adds_amount_and_ledger_entry [OF 1 2 3 4 5 6 7 8 9 10,
      where rq = wallet_request and t = wallet_store_entry and entry = wallet_entry_daily
        and user = "\<lparr>ut_id = 7, ut_roaming_id = ''blue wave'', ut_registration_date = 1\<rparr>"]
  from T [THEN conjunct1]
  obtain s' e where
    r: "earn_kones_route test_config (sqlite_runtime 200)
          (trusted_request ''valid'' (credit_body (JInt 25) (JStr ''daily''))) after_bonus
        = (Json 200 (JObj [(''message'', JStr (''Successfully added '' @ show_int 25 @ '' Kones.'')),
                           (''new_balance'', JInt (balance_of after_bonus ''U1'' + 25))]), s')"
    and bal: "balance_of s' ''U1'' = balance_of after_bonus ''U1'' + 25"
    and led: "ledger s' = ledger after_bonus @ [e]"
    and amt: "kl_amount e = 25"
    by blast
  from r have s': "s' = after_daily" by (simp add: after_daily_def)
  have m: "show_int 25 = ''25''" by code_simp
  have h: "map kl_amount (ledger after_bonus) = [50]" by code_simp
  have c: "earn_kones_route test_config (sqlite_runtime 200)
       (trusted_request ''valid'' (credit_body (JInt 25) (JStr ''daily''))) after_bonus
     = (Json 200 (JObj [(''message'', JStr ''Successfully added 25 Kones.''),
                        (''new_balance'', JInt 75)]), after_daily)
   \<and> balance_of after_daily ''U1'' = 75
   \<and> map kl_amount (ledger after_daily) = [50, 25]"
    using r bal led amt s' b m h by simp
  have u: "session_user wallet_request wallet_store_entry
             = Some \<lparr>ut_id = 7, ut_roaming_id = ''blue wave'', ut_registration_date = 1\<rparr>"
    by code_simp
  have k: "klt_user_id wallet_entry_daily
             = ut_id \<lparr>ut_id = 7, ut_roaming_id = ''blue wave'', ut_registration_date = 1\<rparr>"
    by (simp add: wallet_entry_daily_def)
  have n: "\<forall>r \<in> set (ledger_t wallet_store_entry).
             klt_user_id r = ut_id \<lparr>ut_id = 7, ut_roaming_id = ''blue wave'', ut_registration_date = 1\<rparr>
             \<longrightarrow> klt_timestamp r < klt_timestamp wallet_entry_daily"
    by (simp add: wallet_store_entry_def wallet_entry_daily_def)
  from T [THEN conjunct2] u k n
  obtain older where
    o: "kones_ledger_route wallet_request wallet_store_entry = (Json 200 (JArr older), wallet_store_entry)"
    and w: "kones_ledger_route wallet_request
              (wallet_store_entry\<lparr>ledger_t := ledger_t wallet_store_entry @ [wallet_entry_daily]\<rparr>)
            = (Json 200
                 (JArr (JObj [(''timestamp'', JInt (klt_timestamp wallet_entry_daily)),
                              (''type'', JStr (klt_transaction_type wallet_entry_daily)),
                              (''amount'', JInt (klt_amount wallet_entry_daily)),
                              (''description'',
                                 (case klt_description wallet_entry_daily of
                                    None \<Rightarrow> JNull | Some d \<Rightarrow> JStr d))]
                        # older)),
               wallet_store_entry\<lparr>ledger_t := ledger_t wallet_store_entry @ [wallet_entry_daily]\<rparr>)"
    by blast
  have "kones_ledger_route wallet_request wallet_store_entry
          = (Json 200
               (JArr [JObj [(''timestamp'', JInt 100), (''type'', JStr ''EARN''), (''amount'', JInt 50),
                            (''description'', JStr ''bonus'')]]), wallet_store_entry)"
    by code_simp
  with o have "older = [JObj [(''timestamp'', JInt 100), (''type'', JStr ''EARN''), (''amount'', JInt 50),
                            (''description'', JStr ''bonus'')]]"
    by simp
  with w c show ?thesis by (simp add: wallet_entry_daily_def)
qed

text \<open>
  C2 as stated fails: the secured application, where the credit is, has no ledger
  history, and the ledger history of the wallet application reads the ledger table of
  that application. After the credit of 50, which succeeds and adds its entry to the
  ledger of the secured application, the ledger history answers with the empty list: the
  entry of the credit is not the head of a history.
\<close>

theorem credit_not_in_history_counterexample:
  "earn_kones_route test_config (sqlite_runtime 100)
       (trusted_request ''valid'' (credit_body (JInt 50) (JStr ''bonus''))) fresh_store
     = (Json 200 (JObj [(''message'', JStr ''Successfully added 50 Kones.''),
                        (''new_balance'', JInt 50)]), after_bonus)
   \<and> map kl_amount (ledger after_bonus) = [50]
   \<and> kones_ledger_route wallet_request wallet_store = (Json 200 (JArr []), wallet_store)"
  by code_simp

section \<open>Validation of a credit\<close>

lemma earn_kones_falsy:
  "\<not> truthy (json_body req) \<Longrightarrow>
     earn_kones rt req u s =
       (Json 400 (JObj [(''message'', JStr ''Missing required fields: amount and description.'')]), s)"
  by (simp add: earn_kones_def Let_def)

lemma earn_kones_400_iff:
  assumes "json_body req = JObj kvs"
  shows "(status_code (fst (earn_kones rt req u s)) = 400) =
           (map_of kvs ''amount'' = None \<or> map_of kvs ''description'' = None
            \<or> (\<exists>v. map_of kvs ''amount'' = Some v
                  \<and> (py_int v = Inl ValueError \<or> (\<exists>n. py_int v = Inr n \<and> n \<le> 0))))"
proof (cases "map_of kvs ''amount''")
  case None
  with assms show ?thesis by (simp add: earn_kones_def Let_def)
next
  case (Some raw)
  note raw = Some
  show ?thesis
  proof (cases "map_of kvs ''description''")
    case None
    with assms raw show ?thesis by (simp add: earn_kones_def Let_def)
  next
    case (Some d)
    note d = Some
    from raw have ne: "kvs \<noteq> []" by auto
    show ?thesis
    proof (cases "py_int raw")
      case (Inl e)
      with assms raw d ne show ?thesis by (simp add: earn_kones_def Let_def)
    next
      case (Inr n)
      with assms raw d ne show ?thesis by (simp add: earn_kones_def Let_def)
    qed
  qed
qed

text \<open>
  C3, as the code has it. For a request that passes both decorators: a body that is
  falsy (\<^verbatim>\<open>null\<close>, \<open>{}\<close>, ...) is answered 400 with the missing-fields message; for a body
  that is a JSON object whose \<^verbatim>\<open>amount\<close>, when present, is an int or an ASCII str, the
  answer is a 400 exactly when \<^verbatim>\<open>amount\<close> or \<^verbatim>\<open>description\<close> is absent, \<^verbatim>\<open>int(amount)\<close>
  raises \<^verbatim>\<open>ValueError\<close> (the str is no decimal literal, or one of more than 4300 digits),
  or the converted amount is at most 0; the description is not looked at, so an empty one
  is not refused. Whenever the answer is not 200, the store after the request is the
  store before it.
\<close>

theorem credit_validation_errors:
  assumes "authenticates cfg rt req s uid"
  shows "(\<not> truthy (json_body req) \<longrightarrow>
            earn_kones_route cfg rt req s =
              (Json 400 (JObj [(''message'', JStr ''Missing required fields: amount and description.'')]), s))
       \<and> (json_body req = JObj kvs
            \<and> (\<forall>v. map_of kvs ''amount'' = Some v \<longrightarrow>
                   (\<exists>n. v = JInt n) \<or> (\<exists>t. v = JStr t \<and> is_ascii t)) \<longrightarrow>
            (status_code (fst (earn_kones_route cfg rt req s)) = 400) =
              (map_of kvs ''amount'' = None \<or> map_of kvs ''description'' = None
               \<or> (\<exists>v. map_of kvs ''amount'' = Some v
                     \<and> (py_int v = Inl ValueError \<or> (\<exists>n. py_int v = Inr n \<and> n \<le> 0)))))
       \<and> (status_code (fst (earn_kones_route cfg rt req s)) \<noteq> 200 \<longrightarrow>
            snd (earn_kones_route cfg rt req s) = s)"
proof -
  have r: "earn_kones_route cfg rt req s = earn_kones rt req uid s"
    using assms by (rule authenticates_earn)
  have "status_code (fst (earn_kones rt req uid s)) \<noteq> 200 \<longrightarrow> snd (earn_kones rt req uid s) = s"
    using earn_kones_cases [of rt req uid s] by auto
  with r show ?thesis
    by (auto simp: earn_kones_falsy earn_kones_400_iff)
qed

theorem credit_validation_errors_witness:
  "earn_kones_route test_config (sqlite_runtime 100)
       (trusted_request ''valid'' (credit_body (JInt 0) (JStr ''x''))) fresh_store
     = (Json 400 (JObj [(''message'', JStr ''Amount must be positive.'')]), fresh_store)
   \<and> earn_kones_route test_config (sqlite_runtime 100) (trusted_request ''valid'' (JObj [])) fresh_store
     = (Json 400 (JObj [(''message'', JStr ''Missing required fields: amount and description.'')]),
        fresh_store)"
proof -
  have a: "authenticates test_config (sqlite_runtime 100)
             (trusted_request ''valid'' (credit_body (JInt 0) (JStr ''x''))) fresh_store ''U1''"
    by (simp add: authenticates_example)
  have b: "authenticates test_config (sqlite_runtime 100)
             (trusted_request ''valid'' (JObj [])) fresh_store ''U1''"
    by (simp add: authenticates_example)
  have j: "json_body (trusted_request ''valid'' (credit_body (JInt 0) (JStr ''x'')))
             = JObj [(''amount'', JInt 0), (''description'', JStr ''x'')]"
    by (simp add: trusted_request_def credit_body_def)
  have t: "\<forall>v. map_of [(''amount'', JInt 0), (''description'', JStr ''x'')] ''amount'' = Some v
             \<longrightarrow> (\<exists>n. v = JInt n) \<or> (\<exists>t. v = JStr t \<and> is_ascii t)"
    by simp
  have e: "\<not> truthy (json_body (trusted_request ''valid'' (JObj [])))"
    by (simp add: trusted_request_def)
  from credit_validation_errors [OF a, of "[(''amount'', JInt 0), (''description'', JStr ''x'')]"] j t
  have "status_code (fst (earn_kones_route test_config (sqlite_runtime 100)
          (trusted_request ''valid'' (credit_body (JInt 0) (JStr ''x''))) fresh_store)) = 400
        \<and> snd (earn_kones_route test_config (sqlite_runtime 100)
          (trusted_request ''valid'' (credit_body (JInt 0) (JStr ''x''))) fresh_store) = fresh_store"
    by simp
  moreover have "fst (earn_kones_route test_config (sqlite_runtime 100)
          (trusted_request ''valid'' (credit_body (JInt 0) (JStr ''x''))) fresh_store)
        = Json 400 (JObj [(''message'', JStr ''Amount must be positive.'')])"
    by code_simp
  moreover from credit_validation_errors [OF b, of "[]"] e
  have "earn_kones_route test_config (sqlite_runtime 100) (trusted_request ''valid'' (JObj [])) fresh_store
     = (Json 400 (JObj [(''message'', JStr ''Missing required fields: amount and description.'')]),
        fresh_store)"
    by simp
  ultimately show ?thesis by (simp add: prod_eq_iff)
qed

text \<open>
  C3 as stated fails: a credit of 5 with the empty description is no validation error.
  It is answered 200 and writes a balance row and a ledger entry.
\<close>

theorem empty_description_accepted_counterexample:
  "earn_kones_route test_config (sqlite_runtime 100)
       (trusted_request ''valid'' (credit_body (JInt 5) (JStr ''''))) fresh_store
     = (Json 200 (JObj [(''message'', JStr ''Successfully added 5 Kones.''), (''new_balance'', JInt 5)]),
        fresh_store
          \<lparr>balances := [\<lparr>kb_id = 1, kb_user_auth_uid = ''U1'', kb_balance = 5, kb_last_updated = 100\<rparr>],
           ledger := [\<lparr>kl_id = 1, kl_user_auth_uid = ''U1'', kl_amount = 5,
                       kl_description = JStr '''', kl_timestamp = 100\<rparr>]\<rparr>)"
  by code_simp

section \<open>Who writes balance rows\<close>

lemma balances_credited_length:
  "length (balances (credited rt u a d s)) \<le> Suc (length (balances s))"
  by (simp add: credited_def length_update_first split: option.splits)

lemma earn_kones_route_rows:
  "(status_code (fst (earn_kones_route cfg rt req s)) \<noteq> 200 \<longrightarrow>
      balances (snd (earn_kones_route cfg rt req s)) = balances s)
   \<and> (balance_rows s uid \<noteq> [] \<longrightarrow>
        length (balance_rows (snd (earn_kones_route cfg rt req s)) uid) = length (balance_rows s uid))
   \<and> length (balances (snd (earn_kones_route cfg rt req s))) \<le> Suc (length (balances s))"
proof (cases "snd (earn_kones_route cfg rt req s) = s")
  case True
  then show ?thesis by simp
next
  case False
  with earn_kones_route_cases [of cfg rt req s]
  obtain u where u: "earn_kones_route cfg rt req s = earn_kones rt req u s" by blast
  with False have "snd (earn_kones rt req u s) \<noteq> s" by simp
  with earn_kones_cases [of rt req u s]
  obtain a d where e: "earn_kones rt req u s =
      (Json 200 (JObj [(''message'', JStr (''Successfully added '' @ show_int a @ '' Kones.'')),
                       (''new_balance'', JInt (balance_of s u + a))]), credited rt u a d s)"
    by auto
  from u e balance_rows_credited [of rt u a d s uid] balances_credited_length [of rt u a d s]
  show ?thesis by auto
qed

lemma kones_balance_route_session:
  "balances_t (snd (kones_balance_route rq t)) =
     (case session_user rq t of
        None \<Rightarrow> balances_t t
      | Some user \<Rightarrow>
          (case find (\<lambda>b. kbt_user_id b = ut_id user) (balances_t t) of
             None \<Rightarrow> balances_t t @ [\<lparr>kbt_user_id = ut_id user, kbt_balance = 0\<rparr>]
           | Some b \<Rightarrow> balances_t t))"
proof (cases "session_user rq t")
  case None
  with require_auth_session [of rq get_kones_balance t]
  have "snd (require_auth rq get_kones_balance t) = t"
    by (simp add: prod_eq_iff)
  with None show ?thesis
    by (simp add: kones_balance_route_def)
next
  case (Some user)
  with require_auth_session [of rq get_kones_balance t]
  have "kones_balance_route rq t = get_kones_balance user t"
    by (simp add: kones_balance_route_def)
  with Some show ?thesis
    by (simp add: get_kones_balance_def split: option.splits)
qed

lemma token_check_frame:
  assumes "\<forall>u. balances (snd (f u s)) = balances s"
  shows "balances (snd (get_user_from_auth_header cfg rt req f s)) = balances s"
proof (cases "auth_failure_of cfg rt req s")
  case None
  from auth_passes [OF None, of f] assms show ?thesis by auto
next
  case (Some m)
  from auth_reports [OF Some, of f] show ?thesis by simp
qed

text \<open>
  C8, as the code has it. In the secured application the token check (around a handler
  that leaves the balance table as it is), the posts route and the webhook recording
  leave the balance table as it is, and so does every credit request that is not
  answered 200; a credit never adds a row for an identity that has
  one, and adds at most one row. In the wallet application the ledger-history read leaves
  the balance table as it is. The balance read leaves it as it is when the request has
  no session or the user of the session has a balance row, and appends one row with
  balance 0 for the user of the session when that user has none.
\<close>

theorem balance_rows_written_by:
  "balances (snd (posts_route cfg rt req s)) = balances s
   \<and> balances (snd (webhook_sync_route cfg rt req s)) = balances s
   \<and> (status_code (fst (earn_kones_route cfg rt req s)) \<noteq> 200 \<longrightarrow>
        balances (snd (earn_kones_route cfg rt req s)) = balances s)
   \<and> (balance_rows s uid \<noteq> [] \<longrightarrow>
        length (balance_rows (snd (earn_kones_route cfg rt req s)) uid) = length (balance_rows s uid))
   \<and> length (balances (snd (earn_kones_route cfg rt req s))) \<le> Suc (length (balances s))
   \<and> balances_t (snd (kones_ledger_route rq t)) = balances_t t
   \<and> balances_t (snd (kones_balance_route rq t)) =
       (case session_user rq t of
          None \<Rightarrow> balances_t t
        | Some user \<Rightarrow>
            (case find (\<lambda>b. kbt_user_id b = ut_id user) (balances_t t) of
               None \<Rightarrow> balances_t t @ [\<lparr>kbt_user_id = ut_id user, kbt_balance = 0\<rparr>]
             | Some b \<Rightarrow> balances_t t))
   \<and> ((\<forall>u. balances (snd (f u s)) = balances s) \<longrightarrow>
        balances (snd (get_user_from_auth_header cfg rt req f s)) = balances s)"
  using earn_kones_route_rows [of cfg rt req s uid] kones_balance_route_session [of rq t]
    webhook_sync_route_frame [of cfg rt req s] token_check_frame [of f s cfg rt req]
  by (simp add: posts_route_frame kones_ledger_route_frame)

theorem balance_rows_written_by_witness:
  "length (balance_rows after_daily ''U1'') = 1
   \<and> balances (snd (webhook_sync_route test_config (sqlite_runtime 100)
        (trusted_request ''valid'' (JObj [(''event_type'', JStr ''purchase complete''),
                                          (''payload'', JObj [(''order_id'', JStr ''AX123'')])]))
        after_bonus)) = balances after_bonus
   \<and> balances_t (snd (kones_balance_route wallet_request wallet_store))
       = [\<lparr>kbt_user_id = 7, kbt_balance = 0\<rparr>]"
proof -
  have n: "balance_rows after_bonus ''U1'' \<noteq> []" by code_simp
  have l: "length (balance_rows after_bonus ''U1'') = 1" by code_simp
  have w: "balances (snd (webhook_sync_route test_config (sqlite_runtime 100)
        (trusted_request ''valid'' (JObj [(''event_type'', JStr ''purchase complete''),
                                          (''payload'', JObj [(''order_id'', JStr ''AX123'')])]))
        after_bonus)) = balances after_bonus"
    by (rule balance_rows_written_by [THEN conjunct2, THEN conjunct1])
  have "balance_rows after_bonus ''U1'' \<noteq> [] \<longrightarrow>
        length (balance_rows (snd (earn_kones_route test_config (sqlite_runtime 200)
            (trusted_request ''valid'' (credit_body (JInt 25) (JStr ''daily''))) after_bonus)) ''U1'')
          = length (balance_rows after_bonus ''U1'')"
    by (rule balance_rows_written_by
        [THEN conjunct2, THEN conjunct2, THEN conjunct2, THEN conjunct1])
  with n l have d: "length (balance_rows after_daily ''U1'') = 1"
    by (simp add: after_daily_def)
  have u: "session_user wallet_request wallet_store
             = Some \<lparr>ut_id = 7, ut_roaming_id = ''blue wave'', ut_registration_date = 1\<rparr>"
    by code_simp
  have e: "balances_t wallet_store = []" by (simp add: wallet_store_def)
  have "balances_t (snd (kones_balance_route wallet_request wallet_store)) =
       (case session_user wallet_request wallet_store of
          None \<Rightarrow> balances_t wallet_store
        | Some user \<Rightarrow>
            (case find (\<lambda>b. kbt_user_id b = ut_id user) (balances_t wallet_store) of
               None \<Rightarrow> balances_t wallet_store @ [\<lparr>kbt_user_id = ut_id user, kbt_balance = 0\<rparr>]
             | Some b \<Rightarrow> balances_t wallet_store))"
    by (rule balance_rows_written_by [THEN conjunct2, THEN conjunct2, THEN conjunct2,
          THEN conjunct2, THEN conjunct2, THEN conjunct2, THEN conjunct1])
  with u e have "balances_t (snd (kones_balance_route wallet_request wallet_store))
       = [\<lparr>kbt_user_id = 7, kbt_balance = 0\<rparr>]"
    by simp
  with w d show ?thesis by simp
qed

text \<open>
  C8 as stated fails: the balance read of a user who has a session and no balance row
  creates the row.
\<close>

theorem balance_read_creates_row_counterexample:
  "balances_t wallet_store = []
   \<and> kones_balance_route wallet_request wallet_store
       = (Json 200 (JObj [(''user_id'', JInt 7), (''kone_balance'', JInt 0)]),
          wallet_store\<lparr>balances_t := [\<lparr>kbt_user_id = 7, kbt_balance = 0\<rparr>]\<rparr>)"
  by code_simp

section \<open>The webhook recorder\<close>

lemma webhook_sync_refuses:
  assumes "json_body req = JObj kvs"
    and "map_of kvs ''event_type'' = None \<or> map_of kvs ''payload'' = None
         \<or> (\<exists>v. map_of kvs ''event_type'' = Some v \<and> \<not> truthy v)
         \<or> (\<exists>v. map_of kvs ''payload'' = Some v \<and> \<not> truthy v)"
  shows "webhook_sync rt req u s =
           (Json 400 (JObj [(''message'', JStr ''Request must include 'event_type' and 'payload'.'')]), s)"
  using assms
  by (cases "map_of kvs ''event_type''"; cases "map_of kvs ''payload''")
     (auto simp: webhook_sync_def Let_def)

lemma webhook_sync_records:
  assumes "json_body req = JObj kvs"
    and "map_of kvs ''event_type'' = Some (JStr et)" and "et \<noteq> []"
    and "map_of kvs ''payload'' = Some p" and "truthy p"
    and "fits_string rt 128 (JStr (''WEBHOOK_'' @ replace_char CHR '' '' CHR ''_'' (upper et)))"
  shows "webhook_sync rt req u s =
           (Json 200 (JObj [(''message'', JStr ''Webhook event processed.''),
                            (''event_type'', JStr (''WEBHOOK_'' @ replace_char CHR '' '' CHR ''_'' (upper et)))]),
            s\<lparr>chronolog := chronolog s @
                 [\<lparr>ch_id = next_id (map ch_id (chronolog s)), ch_user_auth_uid = u,
                   ch_event_type = ''WEBHOOK_'' @ replace_char CHR '' '' CHR ''_'' (upper et),
                   ch_payload = p, ch_timestamp = now rt\<rparr>]\<rparr>)"
  using assms by (simp add: webhook_sync_def Let_def)

text \<open>
  C9, as the code has it. For a request that passes both decorators as \<open>uid\<close> and whose
  body is a JSON object: when \<^verbatim>\<open>event_type\<close> or \<^verbatim>\<open>payload\<close> is absent or falsy
  (\<^verbatim>\<open>null\<close>, an empty string, object or list, 0, \<^verbatim>\<open>false\<close>), the answer is the 400
  validation error and the store is unchanged; when \<^verbatim>\<open>event_type\<close> is a non-empty string
  and \<^verbatim>\<open>payload\<close> is truthy (and the engine takes the tag), the answer is 200 and the
  store gains exactly one Chronolog row, of \<open>uid\<close>, with the payload and with the tag
  \<^verbatim>\<open>WEBHOOK_\<close> followed by the event type in upper case with each blank replaced by an
  underscore. No request to the route changes a balance or ledger row.
\<close>

theorem webhook_records_normalised_event:
  assumes "authenticates cfg rt req s uid" and "json_body req = JObj kvs"
  shows "(map_of kvs ''event_type'' = None \<or> map_of kvs ''payload'' = None
            \<or> (\<exists>v. map_of kvs ''event_type'' = Some v \<and> \<not> truthy v)
            \<or> (\<exists>v. map_of kvs ''payload'' = Some v \<and> \<not> truthy v) \<longrightarrow>
          webhook_sync_route cfg rt req s =
            (Json 400 (JObj [(''message'', JStr ''Request must include 'event_type' and 'payload'.'')]), s))
       \<and> (map_of kvs ''event_type'' = Some (JStr et) \<and> et \<noteq> []
            \<and> map_of kvs ''payload'' = Some p \<and> truthy p
            \<and> fits_string rt 128 (JStr (''WEBHOOK_'' @ replace_char CHR '' '' CHR ''_'' (upper et))) \<longrightarrow>
          webhook_sync_route cfg rt req s =
            (Json 200 (JObj [(''message'', JStr ''Webhook event processed.''),
                             (''event_type'', JStr (''WEBHOOK_'' @ replace_char CHR '' '' CHR ''_'' (upper et)))]),
             s\<lparr>chronolog := chronolog s @
                  [\<lparr>ch_id = next_id (map ch_id (chronolog s)), ch_user_auth_uid = uid,
                    ch_event_type = ''WEBHOOK_'' @ replace_char CHR '' '' CHR ''_'' (upper et),
                    ch_payload = p, ch_timestamp = now rt\<rparr>]\<rparr>))
       \<and> balances (snd (webhook_sync_route cfg rt req s)) = balances s
       \<and> ledger (snd (webhook_sync_route cfg rt req s)) = ledger s"
proof -
  have r: "webhook_sync_route cfg rt req s = webhook_sync rt req uid s"
    using assms(1) by (rule authenticates_webhook)
  show ?thesis
    unfolding r
    using webhook_sync_refuses [OF assms(2), of rt uid s]
      webhook_sync_records [OF assms(2), of et p rt uid s]
      webhook_sync_frame [of rt req uid s]
    by blast
qed

theorem webhook_records_normalised_event_witness:
  "webhook_sync_route test_config (sqlite_runtime 100)
       (trusted_request ''valid'' (JObj [(''event_type'', JStr ''purchase complete''),
                                         (''payload'', JObj [(''order_id'', JStr ''AX123'')])]))
       fresh_store
     = (Json 200 (JObj [(''message'', JStr ''Webhook event processed.''),
                        (''event_type'', JStr ''WEBHOOK_PURCHASE_COMPLETE'')]),
        fresh_store\<lparr>chronolog :=
          [\<lparr>ch_id = 1, ch_user_auth_uid = ''U1'', ch_event_type = ''WEBHOOK_PURCHASE_COMPLETE'',
            ch_payload = JObj [(''order_id'', JStr ''AX123'')], ch_timestamp = 100\<rparr>]\<rparr>)"
proof -
  have a: "authenticates test_config (sqlite_runtime 100)
             (trusted_request ''valid'' (JObj [(''event_type'', JStr ''purchase complete''),
                                               (''payload'', JObj [(''order_id'', JStr ''AX123'')])]))
             fresh_store ''U1''"
    by (simp add: authenticates_example)
  have j: "json_body (trusted_request ''valid'' (JObj [(''event_type'', JStr ''purchase complete''),
                                               (''payload'', JObj [(''order_id'', JStr ''AX123'')])]))
           = JObj [(''event_type'', JStr ''purchase complete''),
                   (''payload'', JObj [(''order_id'', JStr ''AX123'')])]"
    by (simp add: trusted_request_def)
  have tag: "replace_char CHR '' '' CHR ''_'' (upper ''purchase complete'') = ''PURCHASE_COMPLETE''"
    by code_simp
  have f: "fits_string (sqlite_runtime 100) 128 (JStr ''WEBHOOK_PURCHASE_COMPLETE'')"
    by (simp add: sqlite_runtime_def)
  have c: "chronolog fresh_store = []" "now (sqlite_runtime 100) = 100"
    by (simp_all add: fresh_store_def sqlite_runtime_def)
  from webhook_records_normalised_event [OF a j, of "''purchase complete''"
      "JObj [(''order_id'', JStr ''AX123'')]", THEN conjunct2, THEN conjunct1] f
  show ?thesis
    by (simp add: tag c next_id_def)
qed

text \<open>
  C9 as stated fails: with \<^verbatim>\<open>event_type\<close> and \<^verbatim>\<open>payload\<close> both present, the payload
  being the empty object, nothing is stored and the answer is the validation error.
\<close>

theorem empty_payload_refused_counterexample:
  "py_contains ''event_type'' (JObj [(''event_type'', JStr ''purchase''), (''payload'', JObj [])]) = Inr True
   \<and> py_contains ''payload'' (JObj [(''event_type'', JStr ''purchase''), (''payload'', JObj [])]) = Inr True
   \<and> webhook_sync_route test_config (sqlite_runtime 100)
        (trusted_request ''valid'' (JObj [(''event_type'', JStr ''purchase''), (''payload'', JObj [])]))
        fresh_store
       = (Json 400 (JObj [(''message'', JStr ''Request must include 'event_type' and 'payload'.'')]),
          fresh_store)"
  by code_simp

section \<open>Amounts given as decimal strings\<close>

lemma digit_not_space: "is_digit c \<Longrightarrow> \<not> is_space c"
  by (auto simp: is_digit_def is_space_def)

lemma digit_not_sign: "is_digit c \<Longrightarrow> c \<noteq> CHR ''-'' \<and> c \<noteq> CHR ''+''"
  by (auto simp: is_digit_def)

lemma strip_decimal:
  assumes "is_decimal t"
  shows "strip t = t"
proof -
  from assms have ne: "t \<noteq> []" and d: "list_all is_digit t"
    by (simp_all add: is_decimal_def)
  then have "is_digit (hd t)" and "is_digit (last t)"
    by (simp_all add: list_all_iff)
  then have h: "\<not> is_space (hd t)" and l: "\<not> is_space (hd (rev t))"
    using ne by (simp_all add: digit_not_space hd_rev)
  from h have "dropWhile is_space t = t"
    by (simp add: dropWhile_eq_self_iff)
  moreover from l have "dropWhile is_space (rev t) = rev t"
    by (simp add: dropWhile_eq_self_iff)
  ultimately show ?thesis by (simp add: strip_def)
qed

lemma digits_decimal:
  assumes "is_decimal t"
  shows "length (filter is_digit (strip t)) = length t"
proof -
  from assms have "\<forall>c \<in> set t. is_digit c"
    by (simp add: is_decimal_def list_all_iff)
  then have "filter is_digit t = t" by simp
  with strip_decimal [OF assms] show ?thesis by simp
qed

lemma parse_digits_decimal:
  "list_all is_digit cs \<Longrightarrow>
     parse_digits acc cs = Some (foldl (\<lambda>a c. 10 * a + digit_val c) acc cs)"
  by (induction acc cs rule: parse_digits.induct) simp_all

lemma int_of_str_decimal:
  assumes "is_decimal t" and "length t \<le> 4300"
  shows "int_of_str t = Some (int (decimal_value t))"
proof -
  from assms(1) obtain c cs where t: "t = c # cs" and c: "is_digit c" and cs: "list_all is_digit cs"
    by (cases t) (auto simp: is_decimal_def)
  have "parse_unsigned (c # cs) = Some (decimal_value (c # cs))"
    using c cs by (simp add: parse_unsigned_def parse_digits_decimal decimal_value_def)
  moreover have "\<not> max_str_digits < length (filter is_digit (strip t))"
    using digits_decimal [OF assms(1)] assms(2) by (simp add: max_str_digits_def)
  ultimately show ?thesis
    using digit_not_sign [OF c] strip_decimal [OF assms(1)] t
    by (simp add: int_of_str_def)
qed

lemma int_of_str_long_decimal:
  assumes "is_decimal t" and "4300 < length t"
  shows "py_int (JStr t) = Inl ValueError"
proof -
  have "max_str_digits < length (filter is_digit (strip t))"
    using digits_decimal [OF assms(1)] assms(2) by (simp add: max_str_digits_def)
  then show ?thesis by (simp add: int_of_str_def)
qed

lemma zeros_five_decimal: "is_decimal (replicate n CHR ''0'' @ ''5'')"
  by (simp add: is_decimal_def list_all_iff is_digit_def)

lemma zeros_five_length: "n < length (replicate n CHR ''0'' @ ''5'')"
  by simp

lemma zeros_value: "foldl (\<lambda>a c. 10 * a + digit_val c) 0 (replicate n CHR ''0'') = 0"
  by (induction n) (simp_all add: digit_val_def)

lemma zeros_five_value: "decimal_value (replicate n CHR ''0'' @ ''5'') = 5"
proof -
  have "digit_val CHR ''5'' = 5" by (simp add: digit_val_def)
  then show ?thesis by (simp add: decimal_value_def zeros_value)
qed

lemma earn_kones_body:
  assumes "json_body req = JObj kvs" and "json_body req' = JObj kvs'"
    and "map_of kvs ''amount'' = Some v" and "map_of kvs' ''amount'' = Some v'"
    and "py_int v = py_int v'"
    and "map_of kvs' ''description'' = map_of kvs ''description''"
  shows "earn_kones rt req' u s = earn_kones rt req u s"
proof -
  from assms(3,4) have "kvs \<noteq> []" "kvs' \<noteq> []" by auto
  with assms show ?thesis
    by (cases "map_of kvs ''description''"; cases "py_int v'")
       (simp_all add: earn_kones_def Let_def)
qed

lemma earn_kones_value_error:
  assumes "py_int v = Inl ValueError"
  shows "earn_kones rt (trusted_request tok (credit_body v d)) u s =
           (Json 400 (JObj [(''message'', JStr ''Amount must be an integer.'')]), s)"
  using assms by (simp add: earn_kones_def Let_def trusted_request_def credit_body_def)

lemma decorators_headers:
  assumes "Authorization req' = Authorization req" and "X_Api_Key req' = X_Api_Key req"
  shows "trusted_service_required cfg req' (get_user_from_auth_header cfg rt req' f) s
       = trusted_service_required cfg req (get_user_from_auth_header cfg rt req f) s"
  using assms by (simp add: trusted_service_required_def get_user_from_auth_header_def)

text \<open>
  C10, as the code has it. A credit request whose \<^verbatim>\<open>amount\<close> is a decimal string (one
  or more of the digits 0 to 9) of at most 4300 digits gets the answer and leaves the
  store that the same request with the number the string denotes gets and leaves; and
  when that number is positive, the request is authenticated as \<open>uid\<close> and the engine
  takes the values, it is accepted: the answer is 200 and the number is credited.
\<close>

theorem decimal_string_amount_credited:
  assumes "is_decimal t" and "length t \<le> 4300" and "json_body req = JObj kvs"
    and "map_of kvs ''amount'' = Some (JStr t)"
    and "map_of kvs' ''amount'' = Some (JInt (int (decimal_value t)))"
    and "map_of kvs' ''description'' = map_of kvs ''description''"
  shows "earn_kones_route cfg rt req s = earn_kones_route cfg rt (req\<lparr>json_body := JObj kvs'\<rparr>) s
       \<and> (authenticates cfg rt req s uid \<and> 0 < decimal_value t
            \<and> map_of kvs ''description'' = Some d \<and> d \<noteq> JNull \<and> fits_string rt 256 d
            \<and> fits_integer rt (int (decimal_value t))
            \<and> fits_integer rt (balance_of s uid + int (decimal_value t)) \<longrightarrow>
          earn_kones_route cfg rt req s =
            (Json 200 (JObj [(''message'', JStr (''Successfully added '' @ show_int (int (decimal_value t)) @ '' Kones.'')),
                             (''new_balance'', JInt (balance_of s uid + int (decimal_value t)))]),
             credited rt uid (int (decimal_value t)) d s))"
proof -
  have p: "py_int (JStr t) = Inr (int (decimal_value t))"
    using assms(1,2) by (simp add: int_of_str_decimal)
  have h: "\<And>u. earn_kones rt (req\<lparr>json_body := JObj kvs'\<rparr>) u = earn_kones rt req u"
  proof
    fix u s
    show "earn_kones rt (req\<lparr>json_body := JObj kvs'\<rparr>) u s = earn_kones rt req u s"
      using assms(3-6) p
      by (intro earn_kones_body [where kvs = kvs and kvs' = kvs' and v = "JStr t"
            and v' = "JInt (int (decimal_value t))"]) simp_all
  qed
  have "earn_kones rt (req\<lparr>json_body := JObj kvs'\<rparr>) = earn_kones rt req"
    using h by (rule ext)
  then have e: "earn_kones_route cfg rt (req\<lparr>json_body := JObj kvs'\<rparr>) s = earn_kones_route cfg rt req s"
    using decorators_headers [of "req\<lparr>json_body := JObj kvs'\<rparr>" req cfg rt "earn_kones rt req" s]
    by (simp add: earn_kones_route_def)
  have "credit_accepted rt s uid (json_body req) (int (decimal_value t)) d"
    if "0 < decimal_value t" "map_of kvs ''description'' = Some d" "d \<noteq> JNull"
      "fits_string rt 256 d" "fits_integer rt (int (decimal_value t))"
      "fits_integer rt (balance_of s uid + int (decimal_value t))"
    using that assms(3,4) p by (simp add: credit_accepted_def)
  with earn_kones_accepted [of rt s uid req "int (decimal_value t)" d] e
  show ?thesis by (auto simp: authenticates_earn)
qed

theorem decimal_string_amount_credited_witness:
  "earn_kones_route test_config (sqlite_runtime 100)
       (trusted_request ''valid'' (credit_body (JStr ''50'') (JStr ''bonus''))) fresh_store
     = earn_kones_route test_config (sqlite_runtime 100)
       (trusted_request ''valid'' (credit_body (JInt 50) (JStr ''bonus''))) fresh_store
   \<and> earn_kones_route test_config (sqlite_runtime 100)
       (trusted_request ''valid'' (credit_body (JStr ''50'') (JStr ''bonus''))) fresh_store
     = (Json 200 (JObj [(''message'', JStr ''Successfully added 50 Kones.''),
                        (''new_balance'', JInt 50)]), after_bonus)"
proof -
  have d: "is_decimal ''50''" by code_simp
  have n: "length ''50'' \<le> 4300" by simp
  have v: "decimal_value ''50'' = 50" by code_simp
  have j: "json_body (trusted_request ''valid'' (credit_body (JStr ''50'') (JStr ''bonus'')))
             = JObj [(''amount'', JStr ''50''), (''description'', JStr ''bonus'')]"
    by (simp add: trusted_request_def credit_body_def)
  have m: "map_of [(''amount'', JStr ''50''), (''description'', JStr ''bonus'')] ''amount'' = Some (JStr ''50'')"
    by simp
  have m': "map_of [(''amount'', JInt 50), (''description'', JStr ''bonus'')] ''amount''
              = Some (JInt (int (decimal_value ''50'')))"
    by (simp add: v)
  have md: "map_of [(''amount'', JInt 50), (''description'', JStr ''bonus'')] ''description''
              = map_of [(''amount'', JStr ''50''), (''description'', JStr ''bonus'')] ''description''"
    by simp
  have r: "(trusted_request ''valid'' (credit_body (JStr ''50'') (JStr ''bonus'')))
              \<lparr>json_body := JObj [(''amount'', JInt 50), (''description'', JStr ''bonus'')]\<rparr>
            = trusted_request ''valid'' (credit_body (JInt 50) (JStr ''bonus''))"
    by (simp add: trusted_request_def credit_body_def)
  from decimal_string_amount_credited [OF d n j m m' md, of test_config "sqlite_runtime 100" fresh_store]
  have "earn_kones_route test_config (sqlite_runtime 100)
          (trusted_request ''valid'' (credit_body (JStr ''50'') (JStr ''bonus''))) fresh_store
        = earn_kones_route test_config (sqlite_runtime 100)
          (trusted_request ''valid'' (credit_body (JInt 50) (JStr ''bonus''))) fresh_store"
    by (simp add: r)
  moreover have "earn_kones_route test_config (sqlite_runtime 100)
          (trusted_request ''valid'' (credit_body (JInt 50) (JStr ''bonus''))) fresh_store
     = (Json 200 (JObj [(''message'', JStr ''Successfully added 50 Kones.''),
                        (''new_balance'', JInt 50)]), after_bonus)"
    by code_simp
  ultimately show ?thesis by simp
qed

text \<open>
  C10 as stated fails: \<^verbatim>\<open>int()\<close> refuses a str of more than 4300 digits. The string of
  4300 zeros followed by 5 is a decimal string that denotes 5; the credit with that
  string is answered 400 \<^verbatim>\<open>Amount must be an integer.\<close> and changes nothing, the credit
  with the number 5 is answered 200 and writes its rows.
\<close>

theorem long_decimal_string_refused_counterexample:
  "is_decimal (replicate 4300 CHR ''0'' @ ''5'')
   \<and> decimal_value (replicate 4300 CHR ''0'' @ ''5'') = 5
   \<and> earn_kones_route test_config (sqlite_runtime 100)
        (trusted_request ''valid'' (credit_body (JStr (replicate 4300 CHR ''0'' @ ''5'')) (JStr ''bonus'')))
        fresh_store
       = (Json 400 (JObj [(''message'', JStr ''Amount must be an integer.'')]), fresh_store)
   \<and> earn_kones_route test_config (sqlite_runtime 100)
        (trusted_request ''valid'' (credit_body (JInt 5) (JStr ''bonus''))) fresh_store
       = (Json 200 (JObj [(''message'', JStr ''Successfully added 5 Kones.''), (''new_balance'', JInt 5)]),
          fresh_store
            \<lparr>balances := [\<lparr>kb_id = 1, kb_user_auth_uid = ''U1'', kb_balance = 5, kb_last_updated = 100\<rparr>],
             ledger := [\<lparr>kl_id = 1, kl_user_auth_uid = ''U1'', kl_amount = 5,
                         kl_description = JStr ''bonus'', kl_timestamp = 100\<rparr>]\<rparr>)"
proof -
  have a: "authenticates test_config (sqlite_runtime 100)
             (trusted_request ''valid'' (credit_body (JStr (replicate 4300 CHR ''0'' @ ''5'')) (JStr ''bonus'')))
             fresh_store ''U1''"
    by (simp add: authenticates_example)
  have "py_int (JStr (replicate 4300 CHR ''0'' @ ''5'')) = Inl ValueError"
    by (rule int_of_str_long_decimal [OF zeros_five_decimal zeros_five_length])
  then have "earn_kones (sqlite_runtime 100)
        (trusted_request ''valid'' (credit_body (JStr (replicate 4300 CHR ''0'' @ ''5'')) (JStr ''bonus'')))
        ''U1'' fresh_store
       = (Json 400 (JObj [(''message'', JStr ''Amount must be an integer.'')]), fresh_store)"
    by (rule earn_kones_value_error)
  moreover from a have "earn_kones_route test_config (sqlite_runtime 100)
        (trusted_request ''valid'' (credit_body (JStr (replicate 4300 CHR ''0'' @ ''5'')) (JStr ''bonus'')))
        fresh_store
      = earn_kones (sqlite_runtime 100)
        (trusted_request ''valid'' (credit_body (JStr (replicate 4300 CHR ''0'' @ ''5'')) (JStr ''bonus'')))
        ''U1'' fresh_store"
    by (rule authenticates_earn)
  ultimately have r: "earn_kones_route test_config (sqlite_runtime 100)
        (trusted_request ''valid'' (credit_body (JStr (replicate 4300 CHR ''0'' @ ''5'')) (JStr ''bonus'')))
        fresh_store
       = (Json 400 (JObj [(''message'', JStr ''Amount must be an integer.'')]), fresh_store)"
    by (rule trans [rotated])
  have n: "earn_kones_route test_config (sqlite_runtime 100)
        (trusted_request ''valid'' (credit_body (JInt 5) (JStr ''bonus''))) fresh_store
       = (Json 200 (JObj [(''message'', JStr ''Successfully added 5 Kones.''), (''new_balance'', JInt 5)]),
          fresh_store
            \<lparr>balances := [\<lparr>kb_id = 1, kb_user_auth_uid = ''U1'', kb_balance = 5, kb_last_updated = 100\<rparr>],
             ledger := [\<lparr>kl_id = 1, kl_user_auth_uid = ''U1'', kl_amount = 5,
                         kl_description = JStr ''bonus'', kl_timestamp = 100\<rparr>]\<rparr>)"
    by code_simp
  show ?thesis
    by (intro conjI) (rule zeros_five_decimal zeros_five_value r n)+
qed

end
